(* ===== verification/Prelude.thy ===== *)
theory Prelude
  imports Complex_Main
begin

text \<open>
  Shared vocabulary of the development: the ECMAScript string built-ins that the
  components call (\<open>String.prototype.split\<close>, \<open>Array.prototype.pop\<close>,
  \<open>toLowerCase\<close>, \<open>toUpperCase\<close>, \<open>replace\<close> with a string pattern, \<open>join\<close>),
  JavaScript truthiness of nullable strings, the \<open>||\<close> default, and the template
  rendering of \<open>null\<close>. Strings are \<open>char list\<close>s; case mapping is modelled on
  ASCII letters only (see the root theory's header for why this is exact for the
  decisions the code takes). The generic lemmas are declared into the collection
  \<open>js_simps\<close> so that component proofs can say \<open>simp add: js_simps\<close>.
\<close>

named_theorems js_simps "evaluation facts of the modelled JavaScript built-ins"

type_synonym fname = string

subsection \<open>split and join\<close>

text \<open>\<open>s.split(d)\<close> for a one-character separator: always at least one segment.\<close>

fun js_split :: "char \<Rightarrow> string \<Rightarrow> string list" where
  "js_split d [] = [[]]"
| "js_split d (c # cs) =
     (if c = d then [] # js_split d cs
      else (case js_split d cs of [] \<Rightarrow> [[c]] | w # ws \<Rightarrow> (c # w) # ws))"

text \<open>\<open>ws.join(sep)\<close>.\<close>

fun js_join :: "string \<Rightarrow> string list \<Rightarrow> string" where
  "js_join sep [] = []"
| "js_join sep [w] = w"
| "js_join sep (w # v # ws) = w @ sep @ js_join sep (v # ws)"

text \<open>\<open>xs.pop()\<close> as used for its value: the last element, \<open>undefined\<close> (None) on [].\<close>

definition js_pop :: "'a list \<Rightarrow> 'a option" where
  "js_pop xs = (if xs = [] then None else Some (last xs))"

subsection \<open>Case mapping and replace\<close>

definition ascii_upper_letters :: string where
  "ascii_upper_letters = ''ABCDEFGHIJKLMNOPQRSTUVWXYZ''"

definition ascii_lower_letters :: string where
  "ascii_lower_letters = ''abcdefghijklmnopqrstuvwxyz''"

definition js_lower_char :: "char \<Rightarrow> char" where
  "js_lower_char c =
     (case map_of (zip ascii_upper_letters ascii_lower_letters) c of
        Some l \<Rightarrow> l | None \<Rightarrow> c)"

definition js_upper_char :: "char \<Rightarrow> char" where
  "js_upper_char c =
     (case map_of (zip ascii_lower_letters ascii_upper_letters) c of
        Some u \<Rightarrow> u | None \<Rightarrow> c)"

definition js_to_lower :: "string \<Rightarrow> string" where
  "js_to_lower s = map js_lower_char s"

definition js_to_upper :: "string \<Rightarrow> string" where
  "js_to_upper s = map js_upper_char s"

text \<open>\<open>s.replace(a, b)\<close> with a one-character string pattern replaces the first match only.\<close>

fun js_replace_first :: "char \<Rightarrow> char \<Rightarrow> string \<Rightarrow> string" where
  "js_replace_first a b [] = []"
| "js_replace_first a b (c # cs) = (if c = a then b # cs else c # js_replace_first a b cs)"

subsection \<open>Nullable strings\<close>

text \<open>JavaScript truthiness of a value that is a string or \<open>null\<close>/\<open>undefined\<close>.\<close>

definition js_truthy :: "string option \<Rightarrow> bool" where
  "js_truthy v = (case v of None \<Rightarrow> False | Some s \<Rightarrow> s \<noteq> [])"

text \<open>\<open>a || b\<close> with a nullable string \<open>a\<close> and a string default \<open>b\<close>.\<close>

definition js_or :: "string option \<Rightarrow> string \<Rightarrow> string" where
  "js_or a b = (if js_truthy a then the a else b)"

text \<open>String conversion in a template literal or in \<open>+\<close>: \<open>null\<close> prints as "null",
  a missing property as "undefined".\<close>

definition js_template_null :: "string option \<Rightarrow> string" where
  "js_template_null v = (case v of None \<Rightarrow> ''null'' | Some s \<Rightarrow> s)"

definition js_concat_undef :: "string option \<Rightarrow> string" where
  "js_concat_undef v = (case v of None \<Rightarrow> ''undefined'' | Some s \<Rightarrow> s)"

subsection \<open>Lemmas on split and join\<close>

lemma js_split_not_Nil [simp]: "js_split d s \<noteq> []"
  by (induction s) (auto split: list.split)

lemma js_split_Cons_sep [js_simps]: "js_split d (d # cs) = [] # js_split d cs"
  by simp

lemma js_split_free [js_simps]: "d \<notin> set s \<Longrightarrow> js_split d s = [s]"
  by (induction s) auto

text \<open>The last segment is the part after the last separator.\<close>

lemma js_split_append_sep [js_simps]:
  "js_split d (xs @ d # ys) = js_split d xs @ js_split d ys"
proof (induction xs)
  case Nil
  then show ?case by simp
next
  case (Cons c cs)
  then show ?case
    using js_split_not_Nil [of d cs] by (auto split: list.split)
qed

lemma last_js_split_append [js_simps]:
  "d \<notin> set ys \<Longrightarrow> last (js_split d (xs @ d # ys)) = ys"
  by (simp add: js_split_append_sep js_split_free)

lemma last_js_split_free [js_simps]: "d \<notin> set s \<Longrightarrow> last (js_split d s) = s"
  by (simp add: js_split_free)

text \<open>Equivalently: the longest suffix free of the separator.\<close>

lemma last_js_split_eq:
  "last (js_split d s) = rev (takeWhile (\<lambda>c. c \<noteq> d) (rev s))"
proof (cases "d \<in> set s")
  case True
  then obtain xs ys where s: "s = xs @ d # ys" and ys: "d \<notin> set ys"
    using split_list_last by metis
  from ys have "takeWhile (\<lambda>c. c \<noteq> d) (rev ys @ d # rev xs) = rev ys"
    by (simp add: takeWhile_append)
  with s ys show ?thesis by (simp add: last_js_split_append)
next
  case False
  then have "takeWhile (\<lambda>c. c \<noteq> d) (rev s) = rev s"
    by (auto simp: takeWhile_eq_all_conv)
  then have "rev (takeWhile (\<lambda>c. c \<noteq> d) (rev s)) = s"
    by (metis rev_rev_ident)
  with False show ?thesis by (simp add: js_split_free)
qed

lemma js_pop_split [js_simps]: "js_pop (js_split d s) = Some (last (js_split d s))"
  by (simp add: js_pop_def)

subsection \<open>Lemmas on case mapping and nullable strings\<close>

lemma js_truthy_simps [simp]:
  "js_truthy None = False" "js_truthy (Some s) = (s \<noteq> [])"
  by (simp_all add: js_truthy_def)

lemma js_or_simps [simp]:
  "js_or None b = b" "js_or (Some s) b = (if s = [] then b else s)"
  by (simp_all add: js_or_def)

lemma js_template_null_simps [simp]:
  "js_template_null None = ''null''" "js_template_null (Some s) = s"
  by (simp_all add: js_template_null_def)

lemma js_concat_undef_simps [simp]:
  "js_concat_undef None = ''undefined''" "js_concat_undef (Some s) = s"
  by (simp_all add: js_concat_undef_def)

end
