(* ===== verification/Js_Number.thy ===== *)
theory Js_Number
  imports Prelude
begin

text \<open>
  JavaScript numbers as the slider arithmetic of \<open>ProcessedImage.jsx\<close> uses them:
  finite values idealised as reals (rounding is not modelled), and the three
  non-finite values \<open>Infinity\<close>, \<open>-Infinity\<close> and \<open>NaN\<close> kept explicit, because
  \<open>x / rect.width\<close> with a zero width produces them and \<open>Math.min\<close>/\<open>Math.max\<close>
  propagate \<open>NaN\<close>. Only the operations the code applies are defined: \<open>/\<close>,
  \<open>*\<close>, \<open>Math.min\<close>, \<open>Math.max\<close> (ECMAScript 2024, 6.1.6.1 and 21.3.2).
  Signed zero is not distinguished.
\<close>

datatype jsnum = Num real | PosInf | NegInf | NaN

text \<open>The sign of an infinite result.\<close>

definition js_inf :: "bool \<Rightarrow> jsnum" where
  "js_inf pos = (if pos then PosInf else NegInf)"

fun js_div :: "jsnum \<Rightarrow> jsnum \<Rightarrow> jsnum" where
  "js_div (Num a) (Num b) =
     (if b \<noteq> 0 then Num (a / b)
      else if 0 < a then PosInf else if a < 0 then NegInf else NaN)"
| "js_div (Num a) PosInf = Num 0"
| "js_div (Num a) NegInf = Num 0"
| "js_div PosInf (Num b) = js_inf (0 \<le> b)"
| "js_div NegInf (Num b) = js_inf (b < 0)"
| "js_div _ _ = NaN"

fun js_mul :: "jsnum \<Rightarrow> jsnum \<Rightarrow> jsnum" where
  "js_mul (Num a) (Num b) = Num (a * b)"
| "js_mul NaN _ = NaN"
| "js_mul _ NaN = NaN"
| "js_mul PosInf (Num b) = (if b = 0 then NaN else js_inf (0 < b))"
| "js_mul NegInf (Num b) = (if b = 0 then NaN else js_inf (b < 0))"
| "js_mul (Num a) PosInf = (if a = 0 then NaN else js_inf (0 < a))"
| "js_mul (Num a) NegInf = (if a = 0 then NaN else js_inf (a < 0))"
| "js_mul PosInf PosInf = PosInf"
| "js_mul NegInf NegInf = PosInf"
| "js_mul _ _ = NegInf"

text \<open>The order of non-NaN numbers (NaN compares false with everything).\<close>

fun js_le :: "jsnum \<Rightarrow> jsnum \<Rightarrow> bool" where
  "js_le NaN _ = False"
| "js_le _ NaN = False"
| "js_le NegInf _ = True"
| "js_le _ PosInf = True"
| "js_le PosInf _ = False"
| "js_le _ NegInf = False"
| "js_le (Num a) (Num b) = (a \<le> b)"

definition js_min :: "jsnum \<Rightarrow> jsnum \<Rightarrow> jsnum" where
  "js_min a b = (if a = NaN \<or> b = NaN then NaN else if js_le a b then a else b)"

definition js_max :: "jsnum \<Rightarrow> jsnum \<Rightarrow> jsnum" where
  "js_max a b = (if a = NaN \<or> b = NaN then NaN else if js_le a b then b else a)"

lemma js_min_Num [simp]: "js_min (Num a) (Num b) = Num (min a b)"
  by (simp add: js_min_def min_def)

lemma js_max_Num [simp]: "js_max (Num a) (Num b) = Num (max a b)"
  by (simp add: js_max_def max_def)

lemma js_min_NaN [simp]: "js_min a NaN = NaN" "js_min NaN a = NaN"
  by (simp_all add: js_min_def)

lemma js_max_NaN [simp]: "js_max a NaN = NaN" "js_max NaN a = NaN"
  by (simp_all add: js_max_def)

lemma js_min_Num_PosInf [simp]: "js_min (Num a) PosInf = Num a"
  by (simp add: js_min_def)

lemma js_min_Num_NegInf [simp]: "js_min (Num a) NegInf = NegInf"
  by (simp add: js_min_def)

lemma js_max_Num_NegInf [simp]: "js_max (Num a) NegInf = Num a"
  by (simp add: js_max_def)

lemma js_inf_simps [simp]: "js_inf True = PosInf" "js_inf False = NegInf"
  by (simp_all add: js_inf_def)

end
