(* ===== verification/App_State.thy ===== *)
theory App_State
  imports Prelude
begin

text \<open>
  The state of the top-level component \<open>App\<close> (\<open>src/DIP/src/App.jsx\<close>) and the
  interface through which its children change it. \<open>App\<close> owns the result that is
  shared between the upload form and the result view (\<open>filename\<close>, \<open>filter\<close>,
  \<open>isProcessing\<close>); the upload form receives the three React setters as props and
  calls them. Here the setters are the commands of \<open>app_cmd\<close> and \<open>apply_cmd\<close> is
  what React does with them. The cursor position of the decorative light effect and the
  active tab are \<open>App\<close>'s own state.
\<close>

datatype tab = Upload_Tab | About_Tab

record app_state =
  filename :: "fname option"
  cur_filter :: "string option"
  is_processing :: bool
  mouse_position :: "real \<times> real"
  active_tab :: tab

text \<open>\<open>useState\<close> initial values, \<open>App.jsx\<close> lines 6--10.\<close>

definition app_init :: app_state where
  "app_init = \<lparr>filename = None, cur_filter = None, is_processing = False,
               mouse_position = (0, 0), active_tab = Upload_Tab\<rparr>"

text \<open>The props \<open>setFilename\<close>, \<open>setFilter\<close>, \<open>setIsProcessing\<close> passed to
  \<open>UploadForm\<close> (line 88).\<close>

datatype app_cmd = SetFilename fname | SetFilter string | SetIsProcessing bool

fun apply_cmd :: "app_state \<Rightarrow> app_cmd \<Rightarrow> app_state" where
  "apply_cmd a (SetFilename n) = a\<lparr>filename := Some n\<rparr>"
| "apply_cmd a (SetFilter f) = a\<lparr>cur_filter := Some f\<rparr>"
| "apply_cmd a (SetIsProcessing b) = a\<lparr>is_processing := b\<rparr>"

text \<open>React applies the updates queued by one handler in the order they were made.\<close>

definition apply_cmds :: "app_state \<Rightarrow> app_cmd list \<Rightarrow> app_state" where
  "apply_cmds a cs = foldl apply_cmd a cs"

text \<open>The window \<open>mousemove\<close> listener of the light effect (lines 13--22) and the
  two tab buttons and the "Try It Now" button (lines 50, 60, 129).\<close>

definition handle_mouse_move :: "real \<Rightarrow> real \<Rightarrow> app_state \<Rightarrow> app_state" where
  "handle_mouse_move x y a = a\<lparr>mouse_position := (x, y)\<rparr>"

definition set_active_tab :: "tab \<Rightarrow> app_state \<Rightarrow> app_state" where
  "set_active_tab t a = a\<lparr>active_tab := t\<rparr>"

text \<open>Whether the upload form and the result view are mounted (line 81).\<close>

definition upload_tab_shown :: "app_state \<Rightarrow> bool" where
  "upload_tab_shown a = (active_tab a = Upload_Tab)"

lemma apply_cmds_simps [simp]:
  "apply_cmds a [] = a"
  "apply_cmds a (c # cs) = apply_cmds (apply_cmd a c) cs"
  by (simp_all add: apply_cmds_def)

lemma apply_cmds_append [simp]: "apply_cmds a (cs @ ds) = apply_cmds (apply_cmds a cs) ds"
  by (simp add: apply_cmds_def)

lemma apply_cmd_frame [simp]:
  "mouse_position (apply_cmd a c) = mouse_position a"
  "active_tab (apply_cmd a c) = active_tab a"
  by (cases c; simp)+

lemma apply_cmds_frame [simp]:
  "mouse_position (apply_cmds a cs) = mouse_position a"
  "active_tab (apply_cmds a cs) = active_tab a"
  by (induction cs arbitrary: a) simp_all

end
