(* ===== verification/Filter_Catalog.thy ===== *)
theory Filter_Catalog
  imports Prelude
begin

text \<open>
  The fixed catalog of filters, \<open>filterInfo\<close> in \<open>UploadForm.jsx\<close> (lines 12--37):
  an object literal whose keys are the identifiers sent to the server and whose values
  carry the tooltip text and an icon glyph. The object is an association list in the
  order \<open>Object.entries\<close> yields it (insertion order). The glyphs are written as
  their Unicode code points. The filter buttons (lines 211--247) are rendered from it.
\<close>

record filter_info =
  description :: string
  icon :: nat

definition filterInfo :: "(string \<times> filter_info) list" where
  "filterInfo =
    [(''sharpen'', \<lparr>description = ''Enhance edge details and clarity'', icon = 0x2727\<rparr>),
     (''blur'', \<lparr>description = ''Smooth out noise and details'', icon = 0x25CE\<rparr>),
     (''edge_x'', \<lparr>description = ''Detect horizontal edges and boundaries'', icon = 0x27F7\<rparr>),
     (''emboss'', \<lparr>description = ''Create 3D relief effect'', icon = 0x25E2\<rparr>),
     (''outline'', \<lparr>description = ''Extract image contours'', icon = 0x25C7\<rparr>),
     (''high_pass'', \<lparr>description = ''Highlight fine details and textures'', icon = 0x25C8\<rparr>)]"

definition filter_keys :: "string list" where
  "filter_keys = map fst filterInfo"

text \<open>The caption of a filter button, \<open>filter.replace('_', ' ')\<close> (line 233).\<close>

definition filter_button_label :: "string \<Rightarrow> string" where
  "filter_button_label k = js_replace_first CHR ''_'' CHR '' '' k"

text \<open>The tooltip under the hovered button (lines 238--245): the description of the
  entry whose key equals \<open>hoverFilter\<close>.\<close>

definition tooltip :: "string option \<Rightarrow> string \<Rightarrow> string option" where
  "tooltip hover k =
     (if hover = Some k then map_option description (map_of filterInfo k) else None)"

lemma filter_keys_eq: "filter_keys = [''sharpen'', ''blur'', ''edge_x'', ''emboss'', ''outline'', ''high_pass'']"
  by (simp add: filter_keys_def filterInfo_def)

lemma filter_keys_nonempty: "k \<in> set filter_keys \<Longrightarrow> k \<noteq> []"
  by (auto simp: filter_keys_eq)

end
