(* ===== verification/Ingestion.thy ===== *)
theory Ingestion
  imports Prelude App_State Filter_Catalog
begin

text \<open>
  Ingestion and validation: the local state of \<open>UploadForm\<close>
  (\<open>src/DIP/src/components/UploadForm.jsx\<close>, lines 4--10), its two input paths
  \<open>handleFileChange\<close> (browse button, lines 53--64) and \<open>handleDrop\<close>
  (drag and drop, lines 77--96) with \<open>allowed_file\<close> (lines 98--101), the drag
  highlight \<open>handleDrag\<close> (lines 66--75), the tooltip hover handlers (lines 215--216)
  and the preview effect (lines 39--51), which owns one object URL of the browser's
  blob store at a time. A handler returns the form's next state and the commands it
  sends to \<open>App\<close> through its setter props; \<open>commit_form\<close> is what React does
  after the handler: it reruns the preview effect when \<open>selectedFile\<close> changed,
  running the previous run's cleanup first.
\<close>

subsection \<open>Files and the validation rules\<close>

text \<open>A browser \<open>File\<close>: \<open>file_id\<close> stands for its object identity, which is what
  React's dependency comparison (\<open>Object.is\<close>) sees.\<close>

record js_file =
  file_id :: nat
  name :: fname
  size :: nat
  file_type :: string

definition max_file_size :: nat where
  "max_file_size = 15 * 1024 * 1024"

definition msg_too_large :: string where
  "msg_too_large = ''File is too large. Please select an image under 15MB.''"

definition msg_unsupported :: string where
  "msg_unsupported = ''Unsupported file type. Please use PNG, JPG, JPEG, or BMP.''"

definition allowed_extensions :: "string list" where
  "allowed_extensions = [''png'', ''jpg'', ''jpeg'', ''bmp'']"

text \<open>\<open>filename.split('.').pop().toLowerCase()\<close>: \<open>pop\<close> of a \<open>split\<close> result is
  never \<open>undefined\<close> (\<open>js_pop_split\<close>), so it is the last segment.\<close>

definition allowed_file :: "fname \<Rightarrow> bool" where
  "allowed_file fn =
     (js_to_lower (last (js_split CHR ''.'' fn)) \<in> set allowed_extensions)"

subsection \<open>The form's state and the browser's blob store\<close>

type_synonym blob_url = nat

record upload_form =
  selected_file :: "js_file option"
  drag_active :: bool
  hover_filter :: "string option"
  preview :: "blob_url option"
  error :: "string option"
  preview_cleanup :: "blob_url option"

text \<open>\<open>preview_cleanup\<close> is the cleanup React keeps from the last run of the preview
  effect (\<open>() => URL.revokeObjectURL(objectUrl)\<close>, line 50), None when that run
  returned none.\<close>

definition upload_form_init :: upload_form where
  "upload_form_init = \<lparr>selected_file = None, drag_active = False, hover_filter = None,
                        preview = None, error = None, preview_cleanup = None\<rparr>"

text \<open>Object URLs: \<open>URL.createObjectURL\<close> returns a fresh URL and makes it live,
  \<open>URL.revokeObjectURL\<close> releases it; \<open>revoked\<close> logs every release.\<close>

record blob_store =
  live_urls :: "blob_url set"
  next_url :: blob_url
  revoked :: "blob_url list"

definition blob_init :: blob_store where
  "blob_init = \<lparr>live_urls = {}, next_url = 0, revoked = []\<rparr>"

definition create_object_url :: "blob_store \<Rightarrow> blob_url \<times> blob_store" where
  "create_object_url b =
     (next_url b, b\<lparr>live_urls := insert (next_url b) (live_urls b), next_url := Suc (next_url b)\<rparr>)"

definition revoke_object_url :: "blob_url \<Rightarrow> blob_store \<Rightarrow> blob_store" where
  "revoke_object_url url b = b\<lparr>live_urls := live_urls b - {url}, revoked := revoked b @ [url]\<rparr>"

subsection \<open>Handlers\<close>

definition handleFileChange :: "js_file option \<Rightarrow> upload_form \<Rightarrow> upload_form \<times> app_cmd list" where
  "handleFileChange file u =
     (let u = u\<lparr>error := None\<rparr> in
      case file of
        None \<Rightarrow> (u, [])
      | Some f \<Rightarrow>
          if max_file_size < size f then (u\<lparr>error := Some msg_too_large\<rparr>, [])
          else (u\<lparr>selected_file := Some f\<rparr>, [SetFilename (name f)]))"

text \<open>The events \<open>handleDrag\<close> is attached to (lines 139--141).\<close>

datatype drag_type = DragEnter | DragOver | DragLeave

fun handleDrag :: "drag_type \<Rightarrow> upload_form \<Rightarrow> upload_form" where
  "handleDrag DragEnter u = u\<lparr>drag_active := True\<rparr>"
| "handleDrag DragOver u = u\<lparr>drag_active := True\<rparr>"
| "handleDrag DragLeave u = u\<lparr>drag_active := False\<rparr>"

text \<open>\<open>e.dataTransfer.files\<close> as a list; \<open>files[0]\<close> is its head.\<close>

definition handleDrop :: "js_file list \<Rightarrow> upload_form \<Rightarrow> upload_form \<times> app_cmd list" where
  "handleDrop files u =
     (let u = u\<lparr>drag_active := False, error := None\<rparr> in
      case files of
        [] \<Rightarrow> (u, [])
      | f # _ \<Rightarrow>
          if max_file_size < size f then (u\<lparr>error := Some msg_too_large\<rparr>, [])
          else if \<not> allowed_file (name f) then (u\<lparr>error := Some msg_unsupported\<rparr>, [])
          else (u\<lparr>selected_file := Some f\<rparr>, [SetFilename (name f)]))"

definition hover_enter :: "string \<Rightarrow> upload_form \<Rightarrow> upload_form" where
  "hover_enter k u = u\<lparr>hover_filter := Some k\<rparr>"

definition hover_leave :: "upload_form \<Rightarrow> upload_form" where
  "hover_leave u = u\<lparr>hover_filter := None\<rparr>"

text \<open>The form's user events other than the filter buttons, and the handler each
  one is wired to (lines 137--157 and 212--216).\<close>

datatype form_event =
    Browse "js_file option"
  | Drag drag_type
  | Drop "js_file list"
  | Hover_Enter string
  | Hover_Leave

fun form_handler :: "form_event \<Rightarrow> upload_form \<Rightarrow> upload_form \<times> app_cmd list" where
  "form_handler (Browse f) u = handleFileChange f u"
| "form_handler (Drag t) u = (handleDrag t u, [])"
| "form_handler (Drop fs) u = handleDrop fs u"
| "form_handler (Hover_Enter k) u = (hover_enter k u, [])"
| "form_handler Hover_Leave u = (hover_leave u, [])"

subsection \<open>The preview effect\<close>

definition preview_effect :: "upload_form \<Rightarrow> blob_store \<Rightarrow> upload_form \<times> blob_store" where
  "preview_effect u b =
     (case selected_file u of
        None \<Rightarrow> (u\<lparr>preview := None, preview_cleanup := None\<rparr>, b)
      | Some f \<Rightarrow>
          (let (url, b') = create_object_url b
           in (u\<lparr>preview := Some url, preview_cleanup := Some url\<rparr>, b')))"

definition run_cleanup :: "upload_form \<Rightarrow> blob_store \<Rightarrow> upload_form \<times> blob_store" where
  "run_cleanup u b =
     (case preview_cleanup u of
        None \<Rightarrow> (u, b)
      | Some url \<Rightarrow> (u\<lparr>preview_cleanup := None\<rparr>, revoke_object_url url b))"

text \<open>After a handler: the effect with dependency \<open>[selectedFile]\<close> reruns iff
  the dependency changed.\<close>

definition commit_form :: "upload_form \<Rightarrow> upload_form \<Rightarrow> blob_store \<Rightarrow> upload_form \<times> blob_store" where
  "commit_form old new b =
     (if selected_file new = selected_file old then (new, b)
      else (let (u, b') = run_cleanup new b in preview_effect u b'))"

text \<open>Mounting runs the effect once; unmounting runs the last cleanup.\<close>

definition mount_form :: "blob_store \<Rightarrow> upload_form \<times> blob_store" where
  "mount_form b = preview_effect upload_form_init b"

definition unmount_form :: "upload_form \<Rightarrow> blob_store \<Rightarrow> blob_store" where
  "unmount_form u b = snd (run_cleanup u b)"

text \<open>The lifecycle invariant of the preview URL at commit points: the preview shown
  is the one the pending cleanup will release, it is the only live object URL, a
  selected file always has one, and every URL handed out or released is below the
  store's counter.\<close>

definition preview_inv :: "upload_form \<Rightarrow> blob_store \<Rightarrow> bool" where
  "preview_inv u b \<longleftrightarrow>
     preview u = preview_cleanup u \<and>
     live_urls b = set_option (preview_cleanup u) \<and>
     (selected_file u = None \<longleftrightarrow> preview_cleanup u = None) \<and>
     (\<forall>x \<in> live_urls b. x < next_url b) \<and>
     (\<forall>x \<in> set (revoked b). x < next_url b)"

text \<open>A user gesture on an input path followed by React's commit.\<close>

definition ingest :: "(upload_form \<Rightarrow> upload_form \<times> app_cmd list) \<Rightarrow> upload_form \<Rightarrow> blob_store
                      \<Rightarrow> upload_form \<times> blob_store \<times> app_cmd list" where
  "ingest h u b = (let (u', cs) = h u; (u'', b') = commit_form u u' b in (u'', b', cs))"

definition form_step :: "form_event \<Rightarrow> upload_form \<Rightarrow> blob_store \<Rightarrow> upload_form \<times> blob_store \<times> app_cmd list" where
  "form_step e u b = ingest (form_handler e) u b"

text \<open>A sequence of form events, each followed by its commit.\<close>

fun form_run :: "form_event list \<Rightarrow> upload_form \<times> blob_store \<Rightarrow> upload_form \<times> blob_store" where
  "form_run [] s = s"
| "form_run (e # es) (u, b) = (case form_step e u b of (u', b', _) \<Rightarrow> form_run es (u', b'))"

subsection \<open>The validator the specification asks for\<close>

text \<open>The specification's single validator (spec sections 4.1 and 9): size first,
  then the case-insensitive extension, the text after the last dot of the name; a
  name without a dot has no extension.\<close>

datatype validation_error = FileTooLarge | UnsupportedType

definition spec_extension :: "fname \<Rightarrow> string option" where
  "spec_extension fn =
     (if CHR ''.'' \<in> set fn then Some (rev (takeWhile (\<lambda>c. c \<noteq> CHR ''.'') (rev fn))) else None)"

definition validate :: "js_file \<Rightarrow> validation_error + js_file" where
  "validate f =
     (if max_file_size < size f then Inl FileTooLarge
      else case spec_extension (name f) of
             Some e \<Rightarrow> if js_to_lower e \<in> set allowed_extensions then Inr f else Inl UnsupportedType
           | None \<Rightarrow> Inl UnsupportedType)"

fun validation_message :: "validation_error \<Rightarrow> string" where
  "validation_message FileTooLarge = msg_too_large"
| "validation_message UnsupportedType = msg_unsupported"

subsection \<open>Behaviour of the handlers\<close>

lemma max_file_size_eq: "max_file_size = 15728640"
  by (simp add: max_file_size_def)

lemma allowed_file_last_segment:
  "allowed_file fn =
     (js_to_lower (rev (takeWhile (\<lambda>c. c \<noteq> CHR ''.'') (rev fn))) \<in> set allowed_extensions)"
  by (simp add: allowed_file_def last_js_split_eq)

lemma handleFileChange_too_large:
  "max_file_size < size f \<Longrightarrow> handleFileChange (Some f) u = (u\<lparr>error := Some msg_too_large\<rparr>, [])"
  by (simp add: handleFileChange_def)

lemma handleFileChange_accepted:
  "size f \<le> max_file_size \<Longrightarrow>
   handleFileChange (Some f) u = (u\<lparr>error := None, selected_file := Some f\<rparr>, [SetFilename (name f)])"
  by (simp add: handleFileChange_def)

lemma handleDrop_too_large:
  "max_file_size < size f \<Longrightarrow>
   handleDrop (f # fs) u = (u\<lparr>drag_active := False, error := Some msg_too_large\<rparr>, [])"
  by (simp add: handleDrop_def)

lemma handleDrop_unsupported:
  "size f \<le> max_file_size \<Longrightarrow> \<not> allowed_file (name f) \<Longrightarrow>
   handleDrop (f # fs) u = (u\<lparr>drag_active := False, error := Some msg_unsupported\<rparr>, [])"
  by (simp add: handleDrop_def)

lemma handleDrop_accepted:
  "size f \<le> max_file_size \<Longrightarrow> allowed_file (name f) \<Longrightarrow>
   handleDrop (f # fs) u =
     (u\<lparr>drag_active := False, error := None, selected_file := Some f\<rparr>, [SetFilename (name f)])"
  by (simp add: handleDrop_def)

text \<open>No handler touches the preview fields: only the effect writes them.\<close>

lemma handlers_preview_frame:
  "preview (fst (handleFileChange x u)) = preview u"
  "preview_cleanup (fst (handleFileChange x u)) = preview_cleanup u"
  "preview (fst (handleDrop fs u)) = preview u"
  "preview_cleanup (fst (handleDrop fs u)) = preview_cleanup u"
  "preview (handleDrag t u) = preview u"
  "preview_cleanup (handleDrag t u) = preview_cleanup u"
  by (cases t; auto simp: handleFileChange_def handleDrop_def Let_def split: option.split list.split)+


lemma form_handler_preview_frame:
  "preview (fst (form_handler e u)) = preview u"
  "preview_cleanup (fst (form_handler e u)) = preview_cleanup u"
  by (cases e; simp add: handlers_preview_frame hover_enter_def hover_leave_def)+

subsection \<open>The preview lifecycle\<close>

lemma preview_inv_init: "preview_inv upload_form_init blob_init"
  by (simp add: preview_inv_def upload_form_init_def blob_init_def)

lemma preview_effect_inv:
  assumes "preview_cleanup u = None" "live_urls b = {}"
    and "\<forall>x \<in> set (revoked b). x < next_url b"
  shows "preview_inv (fst (preview_effect u b)) (snd (preview_effect u b))"
  using assms
  by (auto simp: preview_inv_def preview_effect_def create_object_url_def split: option.split)

lemma run_cleanup_released:
  assumes "live_urls b = set_option (preview_cleanup u)"
    and "\<forall>x \<in> live_urls b. x < next_url b" "\<forall>x \<in> set (revoked b). x < next_url b"
  shows "preview_cleanup (fst (run_cleanup u b)) = None"
    and "live_urls (snd (run_cleanup u b)) = {}"
    and "\<forall>x \<in> set (revoked (snd (run_cleanup u b))). x < next_url (snd (run_cleanup u b))"
  using assms
  by (auto simp: run_cleanup_def revoke_object_url_def split: option.splits)

lemma commit_form_inv:
  assumes inv: "preview_inv old b"
    and frame: "preview new = preview old" "preview_cleanup new = preview_cleanup old"
    and res: "commit_form old new b = (u', b')"
  shows "preview_inv u' b'"
proof (cases "selected_file new = selected_file old")
  case True
  with inv frame res show ?thesis by (simp add: commit_form_def preview_inv_def)
next
  case False
  obtain u1 b1 where rc: "run_cleanup new b = (u1, b1)" by fastforce
  from inv frame have "live_urls b = set_option (preview_cleanup new)"
    "\<forall>x \<in> live_urls b. x < next_url b" "\<forall>x \<in> set (revoked b). x < next_url b"
    by (simp_all add: preview_inv_def)
  then have "preview_cleanup u1 = None" "live_urls b1 = {}"
    "\<forall>x \<in> set (revoked b1). x < next_url b1"
    using run_cleanup_released [of b new] rc by simp_all
  then have "preview_inv (fst (preview_effect u1 b1)) (snd (preview_effect u1 b1))"
    by (rule preview_effect_inv)
  with False rc res show ?thesis by (simp add: commit_form_def)
qed

lemma form_step_preview_inv:
  assumes "preview_inv u b" and "form_step e u b = (u', b', cs)"
  shows "preview_inv u' b'"
proof -
  obtain v cs' where h: "form_handler e u = (v, cs')" by fastforce
  obtain w b'' where c: "commit_form u v b = (w, b'')" by fastforce
  from h have fr: "preview v = preview u" "preview_cleanup v = preview_cleanup u"
    using form_handler_preview_frame [of e u] by simp_all
  have "preview_inv w b''" by (rule commit_form_inv [OF assms(1) fr c])
  with assms(2) h c show ?thesis by (simp add: form_step_def ingest_def)
qed


lemma form_run_preview_inv:
  "preview_inv u b \<Longrightarrow> form_run es (u, b) = (u', b') \<Longrightarrow> preview_inv u' b'"
proof (induction es arbitrary: u b)
  case Nil
  then show ?case by simp
next
  case (Cons e es)
  obtain u1 b1 cs where st: "form_step e u b = (u1, b1, cs)" by (cases "form_step e u b") auto
  with Cons.prems(1) have "preview_inv u1 b1" by (rule form_step_preview_inv)
  with Cons.IH Cons.prems(2) st show ?case by simp
qed

lemma mount_form_inv:
  "mount_form blob_init = (u, b) \<Longrightarrow> preview_inv u b"
  by (auto simp: mount_form_def preview_effect_def upload_form_init_def blob_init_def preview_inv_def)

lemma ingest_accepted_file:
  assumes "preview_inv u b" "size f \<le> max_file_size" "selected_file u \<noteq> Some f"
  shows "ingest (handleFileChange (Some f)) u b =
           (u\<lparr>error := None, selected_file := Some f, preview := Some (next_url b),
              preview_cleanup := Some (next_url b)\<rparr>,
            \<lparr>live_urls = {next_url b}, next_url = Suc (next_url b),
             revoked = revoked b @ (case preview_cleanup u of None \<Rightarrow> [] | Some x \<Rightarrow> [x]),
             \<dots> = blob_store.more b\<rparr>,
            [SetFilename (name f)])"
  using assms
  by (auto simp: ingest_def commit_form_def handleFileChange_accepted run_cleanup_def
      preview_effect_def create_object_url_def revoke_object_url_def preview_inv_def
      split: option.splits)

lemma commit_form_selected [simp]:
  "selected_file (fst (commit_form old new b)) = selected_file new"
  by (simp add: commit_form_def run_cleanup_def preview_effect_def create_object_url_def
      split: option.split prod.split)

lemma allowed_file_nonempty: "allowed_file fn \<Longrightarrow> fn \<noteq> []"
  by (auto simp: allowed_file_def allowed_extensions_def js_to_lower_def)

lemma form_step_drop_accepted:
  assumes "size f \<le> max_file_size" "allowed_file (name f)"
  shows "\<exists>u' b'. form_step (Drop (f # fs)) u b = (u', b', [SetFilename (name f)]) \<and> selected_file u' = Some f"
proof -
  obtain u' b' where c: "commit_form u (u\<lparr>drag_active := False, error := None, selected_file := Some f\<rparr>) b = (u', b')"
    by (metis prod.exhaust)
  have "selected_file u' = Some f"
    using commit_form_selected [of u "u\<lparr>drag_active := False, error := None, selected_file := Some f\<rparr>" b] c by simp
  with c assms show ?thesis by (simp add: form_step_def ingest_def handleDrop_accepted)
qed

subsection \<open>Properties of ingestion\<close>

text \<open>C1. A candidate file larger than 15 MiB is refused with the too-large message on
  both input paths, before any other check: the selection is left as it was and
  nothing is sent to \<open>App\<close>; the specification's validator gives \<open>FileTooLarge\<close>.\<close>

theorem oversize_rejected_both_paths:
  assumes "max_file_size < size f"
  shows "handleDrop (f # fs) u = (u\<lparr>drag_active := False, error := Some msg_too_large\<rparr>, []) \<and>
         handleFileChange (Some f) u = (u\<lparr>error := Some msg_too_large\<rparr>, []) \<and>
         validate f = Inl FileTooLarge"
  using assms by (simp add: handleDrop_too_large handleFileChange_too_large validate_def)

theorem oversize_rejected_both_paths_witness:
  "max_file_size < size \<lparr>file_id = 1, name = ''big.png'', size = 16000000, file_type = ''image/png''\<rparr> \<and>
   handleDrop [\<lparr>file_id = 1, name = ''big.png'', size = 16000000, file_type = ''image/png''\<rparr>]
     upload_form_init =
     (upload_form_init\<lparr>drag_active := False, error := Some msg_too_large\<rparr>, []) \<and>
   handleFileChange (Some \<lparr>file_id = 1, name = ''big.png'', size = 16000000, file_type = ''image/png''\<rparr>)
     upload_form_init = (upload_form_init\<lparr>error := Some msg_too_large\<rparr>, []) \<and>
   validate \<lparr>file_id = 1, name = ''big.png'', size = 16000000, file_type = ''image/png''\<rparr> = Inl FileTooLarge"
  using oversize_rejected_both_paths
    [of "\<lparr>file_id = 1, name = ''big.png'', size = 16000000, file_type = ''image/png''\<rparr>" "[]" upload_form_init]
  by (simp add: max_file_size_eq)

text \<open>C2. On names that have an extension, the drag-and-drop path implements the
  specification's validator exactly: it refuses with the validator's error and its
  message, or selects the file and reports its name to \<open>App\<close>.\<close>

theorem handleDrop_refines_validate:
  assumes "CHR ''.'' \<in> set (name f)"
  shows "handleDrop (f # fs) u =
           (case validate f of
              Inl e \<Rightarrow> (u\<lparr>drag_active := False, error := Some (validation_message e)\<rparr>, [])
            | Inr g \<Rightarrow> (u\<lparr>drag_active := False, error := None, selected_file := Some g\<rparr>,
                        [SetFilename (name g)]))"
proof (cases "max_file_size < size f")
  case True
  then show ?thesis by (simp add: handleDrop_too_large validate_def)
next
  case False
  with assms have v: "validate f =
      (if allowed_file (name f) then Inr f else Inl UnsupportedType)"
    by (simp add: validate_def spec_extension_def allowed_file_last_segment)
  from False show ?thesis
    by (cases "allowed_file (name f)") (simp_all add: v handleDrop_accepted handleDrop_unsupported)
qed

theorem handleDrop_refines_validate_witness:
  "CHR ''.'' \<in> set (name \<lparr>file_id = 2, name = ''cat.PNG'', size = 2048, file_type = ''image/png''\<rparr>) \<and>
   handleDrop [\<lparr>file_id = 2, name = ''cat.PNG'', size = 2048, file_type = ''image/png''\<rparr>] upload_form_init =
     (upload_form_init\<lparr>drag_active := False, error := None,
        selected_file := Some \<lparr>file_id = 2, name = ''cat.PNG'', size = 2048, file_type = ''image/png''\<rparr>\<rparr>,
      [SetFilename ''cat.PNG''])"
  using handleDrop_refines_validate
    [of "\<lparr>file_id = 2, name = ''cat.PNG'', size = 2048, file_type = ''image/png''\<rparr>" "[]" upload_form_init]
  by (simp add: validate_def spec_extension_def max_file_size_eq allowed_extensions_def
      js_to_lower_def js_lower_char_def ascii_upper_letters_def ascii_lower_letters_def)


text \<open>C3. The browse path does not apply the extension rule: every file the
  specification's validator refuses for its type is selected by \<open>handleFileChange\<close>
  and its name is sent to \<open>App\<close> (spec 4.1 notes the inconsistency; spec 9 asks for
  one validator on every path).\<close>

theorem browse_accepts_type_rejected_files:
  assumes "validate f = Inl UnsupportedType"
  shows "handleFileChange (Some f) u =
           (u\<lparr>error := None, selected_file := Some f\<rparr>, [SetFilename (name f)])"
proof -
  from assms have "size f \<le> max_file_size"
    by (auto simp: validate_def split: if_splits)
  then show ?thesis by (rule handleFileChange_accepted)
qed

theorem browse_accepts_type_rejected_files_witness:
  "validate \<lparr>file_id = 3, name = ''notes.txt'', size = 100, file_type = ''text/plain''\<rparr> = Inl UnsupportedType \<and>
   handleFileChange (Some \<lparr>file_id = 3, name = ''notes.txt'', size = 100, file_type = ''text/plain''\<rparr>)
     upload_form_init =
     (upload_form_init\<lparr>error := None,
        selected_file := Some \<lparr>file_id = 3, name = ''notes.txt'', size = 100, file_type = ''text/plain''\<rparr>\<rparr>,
      [SetFilename ''notes.txt''])"
proof -
  have v: "validate \<lparr>file_id = 3, name = ''notes.txt'', size = 100, file_type = ''text/plain''\<rparr> = Inl UnsupportedType"
    by (simp add: validate_def spec_extension_def max_file_size_eq allowed_extensions_def
        js_to_lower_def js_lower_char_def ascii_upper_letters_def ascii_lower_letters_def)
  show ?thesis using v browse_accepts_type_rejected_files [OF v, of upload_form_init] by simp
qed

text \<open>C4. \<open>allowed_file\<close> decides on the text after the last dot, lower-cased; a name
  without a dot is judged as a whole, so a file named just "png" or "JPEG" passes the
  check although it has no extension.\<close>

theorem allowed_file_iff:
  "allowed_file fn \<longleftrightarrow>
     js_to_lower (case spec_extension fn of Some e \<Rightarrow> e | None \<Rightarrow> fn) \<in> set allowed_extensions"
proof (cases "CHR ''.'' \<in> set fn")
  case True
  then show ?thesis by (simp add: allowed_file_last_segment spec_extension_def)
next
  case False
  then show ?thesis by (simp add: allowed_file_def spec_extension_def last_js_split_free)
qed


text \<open>C5. After mounting and any sequence of form events, each followed by React's
  commit, the only live object URL is the one the preview shows: at most one preview
  resource is held at a time, and a selected file always has it.\<close>

theorem preview_single_live_url:
  assumes "mount_form blob_init = (u0, b0)" and "form_run es (u0, b0) = (u, b)"
  shows "live_urls b = set_option (preview u) \<and> card (live_urls b) \<le> 1 \<and>
         (selected_file u \<noteq> None \<longrightarrow> preview u \<noteq> None)"
proof -
  have "preview_inv u b"
    using form_run_preview_inv [OF mount_form_inv [OF assms(1)] assms(2)] .
  then show ?thesis by (cases "preview u") (auto simp: preview_inv_def)
qed

theorem preview_single_live_url_witness:
  "mount_form blob_init = (upload_form_init, blob_init) \<and>
   form_run [Drop [\<lparr>file_id = 4, name = ''a.png'', size = 10, file_type = ''image/png''\<rparr>]]
     (upload_form_init, blob_init) = (upload_form_init\<lparr>selected_file :=
        Some \<lparr>file_id = 4, name = ''a.png'', size = 10, file_type = ''image/png''\<rparr>,
        preview := Some 0, preview_cleanup := Some 0\<rparr>,
      \<lparr>live_urls = {0}, next_url = 1, revoked = []\<rparr>) \<and>
   card (live_urls \<lparr>live_urls = {0::blob_url}, next_url = 1, revoked = []\<rparr>) \<le> 1"
proof -
  have m: "mount_form blob_init = (upload_form_init, blob_init)"
    by (simp add: mount_form_def preview_effect_def upload_form_init_def)
  have run: "form_run [Drop [\<lparr>file_id = 4, name = ''a.png'', size = 10, file_type = ''image/png''\<rparr>]]
     (upload_form_init, blob_init) = (upload_form_init\<lparr>selected_file :=
        Some \<lparr>file_id = 4, name = ''a.png'', size = 10, file_type = ''image/png''\<rparr>,
        preview := Some 0, preview_cleanup := Some 0\<rparr>,
      \<lparr>live_urls = {0}, next_url = 1, revoked = []\<rparr>)"
    by (simp add: preview_effect_def upload_form_init_def blob_init_def form_step_def
        ingest_def handleDrop_def allowed_file_def allowed_extensions_def max_file_size_eq
        commit_form_def run_cleanup_def create_object_url_def js_to_lower_def js_lower_char_def
        ascii_upper_letters_def ascii_lower_letters_def)
  show ?thesis using m run preview_single_live_url [OF m run] by simp
qed

text \<open>C6. Selecting file A and then a different file B releases A's preview URL
  exactly once, when B's preview is created; afterwards only B's URL is live and the
  preview no longer refers to A's.\<close>

theorem preview_replaced_released_once:
  assumes inv: "preview_inv u b"
    and sizes: "size A \<le> max_file_size" "size B \<le> max_file_size"
    and fresh: "selected_file u \<noteq> Some A" and diff: "A \<noteq> B"
    and stepA: "ingest (handleFileChange (Some A)) u b = (u1, b1, c1)"
    and stepB: "ingest (handleFileChange (Some B)) u1 b1 = (u2, b2, c2)"
  shows "\<exists>urlA urlB. preview u1 = Some urlA \<and> preview u2 = Some urlB \<and> urlA \<noteq> urlB \<and>
           urlA \<notin> live_urls b2 \<and> live_urls b2 = {urlB} \<and> count_list (revoked b2) urlA = 1"
proof -
  have A: "u1 = u\<lparr>error := None, selected_file := Some A, preview := Some (next_url b),
              preview_cleanup := Some (next_url b)\<rparr>"
    "b1 = \<lparr>live_urls = {next_url b}, next_url = Suc (next_url b),
             revoked = revoked b @ (case preview_cleanup u of None \<Rightarrow> [] | Some x \<Rightarrow> [x]),
             \<dots> = blob_store.more b\<rparr>"
    using ingest_accepted_file [OF inv sizes(1) fresh] stepA by simp_all
  have inv1: "preview_inv u1 b1"
    using inv by (auto simp: A preview_inv_def split: option.split)
  have fresh1: "selected_file u1 \<noteq> Some B" using diff by (simp add: A)
  have B: "u2 = u1\<lparr>error := None, selected_file := Some B, preview := Some (next_url b1),
              preview_cleanup := Some (next_url b1)\<rparr>"
    "b2 = \<lparr>live_urls = {next_url b1}, next_url = Suc (next_url b1),
             revoked = revoked b1 @ (case preview_cleanup u1 of None \<Rightarrow> [] | Some x \<Rightarrow> [x]),
             \<dots> = blob_store.more b1\<rparr>"
    using ingest_accepted_file [OF inv1 sizes(2) fresh1] stepB by simp_all
  have "next_url b \<notin> set (revoked b)" "preview_cleanup u \<noteq> Some (next_url b)"
    using inv by (auto simp: preview_inv_def)
  then have "count_list (revoked b2) (next_url b) = 1"
    by (simp add: B A count_list_0_iff split: option.split)
  then show ?thesis by (simp add: A B)
qed

theorem preview_replaced_released_once_witness:
  "\<exists>urlA urlB. preview (fst (ingest (handleFileChange (Some \<lparr>file_id = 5, name = ''a.png'', size = 10, file_type = ''image/png''\<rparr>))
        upload_form_init blob_init)) = Some urlA \<and>
     preview (fst (ingest (handleFileChange (Some \<lparr>file_id = 6, name = ''b.png'', size = 20, file_type = ''image/png''\<rparr>))
        (fst (ingest (handleFileChange (Some \<lparr>file_id = 5, name = ''a.png'', size = 10, file_type = ''image/png''\<rparr>))
          upload_form_init blob_init))
        (fst (snd (ingest (handleFileChange (Some \<lparr>file_id = 5, name = ''a.png'', size = 10, file_type = ''image/png''\<rparr>))
          upload_form_init blob_init))))) = Some urlB \<and> urlA \<noteq> urlB"
proof -
  let ?A = "\<lparr>file_id = 5, name = ''a.png'', size = 10, file_type = ''image/png''\<rparr>"
  let ?B = "\<lparr>file_id = 6, name = ''b.png'', size = 20, file_type = ''image/png''\<rparr>"
  obtain u1 b1 c1 where s1: "ingest (handleFileChange (Some ?A)) upload_form_init blob_init = (u1, b1, c1)"
    by (metis prod.exhaust)
  obtain u2 b2 c2 where s2: "ingest (handleFileChange (Some ?B)) u1 b1 = (u2, b2, c2)"
    by (metis prod.exhaust)
  have "\<exists>urlA urlB. preview u1 = Some urlA \<and> preview u2 = Some urlB \<and> urlA \<noteq> urlB \<and>
           urlA \<notin> live_urls b2 \<and> live_urls b2 = {urlB} \<and> count_list (revoked b2) urlA = 1"
    by (rule preview_replaced_released_once [OF preview_inv_init _ _ _ _ s1 s2])
       (simp_all add: max_file_size_eq upload_form_init_def)
  with s1 s2 show ?thesis by auto
qed

text \<open>C7. Unmounting the form (switching to the About tab) runs the last cleanup:
  no object URL stays live and the preview's URL has been released.\<close>

theorem unmount_releases_preview:
  assumes "preview_inv u b"
  shows "live_urls (unmount_form u b) = {} \<and>
         set_option (preview u) \<subseteq> set (revoked (unmount_form u b))"
  using assms
  by (auto simp: unmount_form_def run_cleanup_def revoke_object_url_def preview_inv_def
      split: option.splits)

theorem unmount_releases_preview_witness:
  "preview_inv (upload_form_init\<lparr>selected_file := Some \<lparr>file_id = 7, name = ''c.bmp'', size = 1, file_type = ''image/bmp''\<rparr>,
      preview := Some 3, preview_cleanup := Some 3\<rparr>) \<lparr>live_urls = {3}, next_url = 4, revoked = [0, 1, 2]\<rparr> \<and>
   live_urls (unmount_form (upload_form_init\<lparr>selected_file := Some \<lparr>file_id = 7, name = ''c.bmp'', size = 1, file_type = ''image/bmp''\<rparr>,
      preview := Some 3, preview_cleanup := Some 3\<rparr>) \<lparr>live_urls = {3}, next_url = 4, revoked = [0, 1, 2]\<rparr>) = {} \<and>
   {3} \<subseteq> set (revoked (unmount_form (upload_form_init\<lparr>selected_file := Some \<lparr>file_id = 7, name = ''c.bmp'', size = 1, file_type = ''image/bmp''\<rparr>,
      preview := Some 3, preview_cleanup := Some 3\<rparr>) \<lparr>live_urls = {3}, next_url = 4, revoked = [0, 1, 2]\<rparr>))"
proof -
  let ?u = "upload_form_init\<lparr>selected_file := Some \<lparr>file_id = 7, name = ''c.bmp'', size = 1, file_type = ''image/bmp''\<rparr>,
      preview := Some 3, preview_cleanup := Some 3\<rparr>"
  let ?b = "\<lparr>live_urls = {3::nat}, next_url = 4, revoked = [0, 1, 2]\<rparr>"
  have inv: "preview_inv ?u ?b" by (simp add: preview_inv_def upload_form_init_def)
  show ?thesis using inv unmount_releases_preview [OF inv] by (simp add: upload_form_init_def)
qed


end
