(* ===== verification/Form_View.thy ===== *)
theory Form_View
  imports Ingestion
begin

text \<open>
  What \<open>UploadForm\<close> renders (\<open>src/DIP/src/components/UploadForm.jsx\<close>,
  lines 134--250): the drop area with its highlight classes, the blurred preview
  background and thumbnail, the selected file's name or the prompt, the error banner,
  and one button per catalog entry with its icon, caption, \<open>disabled\<close> flag and
  tooltip. The page model delivers a filter click only to a rendered button that is
  not disabled (\<open>button_enabled\<close>).
\<close>

record filter_button =
  fb_key :: string
  fb_label :: string
  fb_icon :: nat
  fb_disabled :: bool
  fb_tooltip :: "string option"

record form_view =
  area_selected :: bool
  area_drag_highlight :: bool
  preview_background :: "blob_url option"
  thumbnail :: "blob_url option option"
  caption :: string
  error_banner :: "string option"
  buttons :: "filter_button list"

definition prompt_text :: string where
  "prompt_text = ''Click or drag image here''"

text \<open>Lines 143--198: the drop area; \<open>preview &&\<close> guards the background, the
  thumbnail is rendered whenever a file is selected, with \<open>src={preview}\<close>.\<close>

definition render_form :: "upload_form \<Rightarrow> form_view" where
  "render_form u =
     \<lparr>area_selected = (selected_file u \<noteq> None),
      area_drag_highlight = drag_active u,
      preview_background = preview u,
      thumbnail = (if selected_file u = None then None else Some (preview u)),
      caption = (case selected_file u of Some f \<Rightarrow> name f | None \<Rightarrow> prompt_text),
      error_banner = (if js_truthy (error u) then error u else None),
      buttons =
        map (\<lambda>(k, info).
               \<lparr>fb_key = k, fb_label = filter_button_label k, fb_icon = icon info,
                fb_disabled = (selected_file u = None), fb_tooltip = tooltip (hover_filter u) k\<rparr>)
            filterInfo\<rparr>"

definition button_enabled :: "form_view \<Rightarrow> string \<Rightarrow> bool" where
  "button_enabled v k = (\<exists>b \<in> set (buttons v). fb_key b = k \<and> \<not> fb_disabled b)"

lemma button_enabled_iff:
  "button_enabled (render_form u) k \<longleftrightarrow> k \<in> set filter_keys \<and> selected_file u \<noteq> None"
  by (auto simp: button_enabled_def render_form_def filter_keys_def case_prod_beta)

subsection \<open>Properties of the rendered form\<close>

text \<open>C27. The form renders the six catalog buttons in catalog order with the captions
  "sharpen", "blur", "edge x", "emboss", "outline", "high pass"; every button is
  disabled exactly when no file is selected; a tooltip appears only under the hovered
  button, with that filter's description.\<close>

theorem render_form_buttons:
  "map (\<lambda>b. (fb_key b, fb_label b)) (buttons (render_form u)) =
     [(''sharpen'', ''sharpen''), (''blur'', ''blur''), (''edge_x'', ''edge x''),
      (''emboss'', ''emboss''), (''outline'', ''outline''), (''high_pass'', ''high pass'')] \<and>
   (\<forall>b \<in> set (buttons (render_form u)). fb_disabled b = (selected_file u = None)) \<and>
   (\<forall>b \<in> set (buttons (render_form u)). fb_tooltip b \<noteq> None \<longrightarrow>
      hover_filter u = Some (fb_key b) \<and>
      fb_tooltip b = map_option description (map_of filterInfo (fb_key b)))"
  by (auto simp: render_form_def filterInfo_def filter_button_label_def tooltip_def)

theorem render_form_buttons_witness:
  "map fb_tooltip (buttons (render_form (upload_form_init\<lparr>hover_filter := Some ''emboss''\<rparr>))) =
     [None, None, None, Some ''Create 3D relief effect'', None, None] \<and>
   map fb_disabled (buttons (render_form (upload_form_init\<lparr>hover_filter := Some ''emboss''\<rparr>))) =
     [True, True, True, True, True, True]"
proof -
  have "\<forall>b \<in> set (buttons (render_form (upload_form_init\<lparr>hover_filter := Some ''emboss''\<rparr>))).
          fb_disabled b = (selected_file (upload_form_init\<lparr>hover_filter := Some ''emboss''\<rparr>) = None)"
    using render_form_buttons [of "upload_form_init\<lparr>hover_filter := Some ''emboss''\<rparr>"] by blast
  then show ?thesis
    by (simp add: render_form_def filterInfo_def tooltip_def upload_form_init_def)
qed


end
