(* ===== verification/Submission.thy ===== *)
theory Submission
  imports Ingestion
begin

text \<open>
  The submission orchestrator: \<open>handleUpload\<close> in
  \<open>src/DIP/src/components/UploadForm.jsx\<close> (lines 103--132). The async function
  runs in two parts separated by its one \<open>await\<close>: \<open>handleUpload_start\<close> is the
  synchronous prefix up to \<open>axios.post\<close> (the guard, the form data, the in-flight
  flag), and \<open>handleUpload_finish\<close> is the continuation once the request settles,
  with the \<open>try\<close>/\<open>catch\<close>/\<open>finally\<close> branches. The request keeps the file
  and filter the closure captured at the click. The server's reply is an input
  (\<open>response\<close>): a 2xx answer with its JSON \<open>success\<close> flag and \<open>error\<close> field,
  a non-2xx answer (axios rejects, \<open>error.response.data.error\<close> is available), or no
  answer at all (network failure or timeout, \<open>error.response\<close> is undefined).
  The specification's \<open>ProcessingState\<close> and its transitions are stated here as
  \<open>processing_state\<close> and \<open>spec_outcome\<close>; the code keeps no such state and is
  related to it by \<open>proc_abs\<close>.
\<close>

record upload_request =
  req_file :: js_file
  req_filter :: string

datatype response =
    Http_Ok bool "string option"
  | Http_Error "string option"
  | No_Response

definition msg_no_file :: string where
  "msg_no_file = ''Please select an image first!''"

definition msg_offline :: string where
  "msg_offline = ''Failed to process the image. Server might be offline.''"

text \<open>Lines 104--117: the result is the form's next state, the commands to \<open>App\<close>
  and the request that is sent, if any.\<close>

definition handleUpload_start ::
  "string \<Rightarrow> upload_form \<Rightarrow> upload_form \<times> app_cmd list \<times> upload_request option" where
  "handleUpload_start filterType u =
     (case selected_file u of
        None \<Rightarrow> (u\<lparr>error := Some msg_no_file\<rparr>, [], None)
      | Some f \<Rightarrow>
          (u\<lparr>error := None\<rparr>, [SetIsProcessing True],
           Some \<lparr>req_file = f, req_filter = filterType\<rparr>))"

text \<open>Lines 118--131: the message passed to \<open>setError\<close> (None when it is not called)
  and the commands to \<open>App\<close>, the \<open>finally\<close> clause's last.\<close>

definition handleUpload_finish :: "upload_request \<Rightarrow> response \<Rightarrow> string option \<times> app_cmd list" where
  "handleUpload_finish req r =
     (case r of
        Http_Ok success e \<Rightarrow>
          if success
          then (None, [SetFilter (req_filter req), SetFilename (name (req_file req)),
                       SetIsProcessing False])
          else (Some (''Error: '' @ js_concat_undef e), [SetIsProcessing False])
      | Http_Error e \<Rightarrow> (Some (js_or e msg_offline), [SetIsProcessing False])
      | No_Response \<Rightarrow> (Some (js_or None msg_offline), [SetIsProcessing False]))"

definition set_error_opt :: "string option \<Rightarrow> upload_form \<Rightarrow> upload_form" where
  "set_error_opt m u = (case m of None \<Rightarrow> u | Some e \<Rightarrow> u\<lparr>error := Some e\<rparr>)"

subsection \<open>The specification's processing state\<close>

text \<open>Spec sections 3, 4.2, 6 and 7: a request ends Succeeded with the result's name and
  filter, or Failed; a failure the server reports in a well-formed reply (\<open>success\<close>
  false) is a server error surfaced with its message, while a non-2xx reply and a
  missing reply are transport errors surfaced with a generic connectivity message.\<close>

datatype processing_state = Idle | InFlight | Succeeded fname string | Failed string

datatype spec_result =
    Spec_Succeeded fname string
  | Spec_Server_Error "string option"
  | Spec_Transport_Error

fun spec_classify :: "fname \<Rightarrow> string \<Rightarrow> response \<Rightarrow> spec_result" where
  "spec_classify n k (Http_Ok True e) = Spec_Succeeded n k"
| "spec_classify n k (Http_Ok False e) = Spec_Server_Error e"
| "spec_classify n k (Http_Error e) = Spec_Transport_Error"
| "spec_classify n k No_Response = Spec_Transport_Error"

text \<open>The terminal state the specification prescribes for each class; the server's
  message appears verbatim after the code's "Error: " label.\<close>

fun spec_view :: "spec_result \<Rightarrow> processing_state" where
  "spec_view (Spec_Succeeded n k) = Succeeded n k"
| "spec_view (Spec_Server_Error e) = Failed (''Error: '' @ js_concat_undef e)"
| "spec_view Spec_Transport_Error = Failed msg_offline"

text \<open>What the page shows, read as a processing state: the in-flight flag first, then a
  displayed error, then a result.\<close>

definition proc_abs :: "app_state \<Rightarrow> upload_form \<Rightarrow> processing_state" where
  "proc_abs a u =
     (if is_processing a then InFlight
      else case error u of
             Some m \<Rightarrow> Failed m
           | None \<Rightarrow> (case (filename a, cur_filter a) of
                        (Some n, Some k) \<Rightarrow> Succeeded n k
                      | _ \<Rightarrow> Idle))"

subsection \<open>Lemmas\<close>

lemma handleUpload_start_None:
  "selected_file u = None \<Longrightarrow> handleUpload_start k u = (u\<lparr>error := Some msg_no_file\<rparr>, [], None)"
  by (simp add: handleUpload_start_def)

lemma handleUpload_start_Some:
  "selected_file u = Some f \<Longrightarrow>
   handleUpload_start k u =
     (u\<lparr>error := None\<rparr>, [SetIsProcessing True], Some \<lparr>req_file = f, req_filter = k\<rparr>)"
  by (simp add: handleUpload_start_def)

text \<open>One submission from the click to the settled reply, as the page sees it: the
  App state and form after the start, and after the continuation.\<close>

lemma upload_round_trip:
  assumes "selected_file u = Some f"
  shows "handleUpload_start k u =
           (u\<lparr>error := None\<rparr>, [SetIsProcessing True], Some \<lparr>req_file = f, req_filter = k\<rparr>)"
    and "handleUpload_finish \<lparr>req_file = f, req_filter = k\<rparr> r =
           (case r of
              Http_Ok True e \<Rightarrow> (None, [SetFilter k, SetFilename (name f), SetIsProcessing False])
            | Http_Ok False e \<Rightarrow> (Some (''Error: '' @ js_concat_undef e), [SetIsProcessing False])
            | Http_Error e \<Rightarrow> (Some (js_or e msg_offline), [SetIsProcessing False])
            | No_Response \<Rightarrow> (Some msg_offline, [SetIsProcessing False]))"
  using assms by (auto simp: handleUpload_start_Some handleUpload_finish_def split: response.split)

subsection \<open>Properties of the submission\<close>

text \<open>C8. Submitting with no file selected fails locally with the no-file message: no
  request is issued and \<open>App\<close>'s state is untouched.\<close>

theorem upload_without_selection:
  assumes "selected_file u = None"
  shows "handleUpload_start k u = (u\<lparr>error := Some msg_no_file\<rparr>, [], None) \<and>
         apply_cmds a (fst (snd (handleUpload_start k u))) = a"
  using assms by (simp add: handleUpload_start_None)

theorem upload_without_selection_witness:
  "selected_file upload_form_init = None \<and>
   handleUpload_start ''blur'' upload_form_init = (upload_form_init\<lparr>error := Some msg_no_file\<rparr>, [], None) \<and>
   apply_cmds app_init (fst (snd (handleUpload_start ''blur'' upload_form_init))) = app_init"
  using upload_without_selection [of upload_form_init "''blur''" app_init]
  by (simp add: upload_form_init_def)

text \<open>C9. A successful reply publishes the pair captured at the click: afterwards
  \<open>App\<close> holds the request's filter and the selected file's name, processing is
  over, and no error is set.\<close>

theorem upload_success_publishes_result:
  assumes "selected_file u = Some f"
    and "handleUpload_start k u = (u1, cs1, Some req)"
    and "handleUpload_finish req (Http_Ok True e) = (m, cs2)"
  shows "cur_filter (apply_cmds (apply_cmds a cs1) cs2) = Some k \<and>
         filename (apply_cmds (apply_cmds a cs1) cs2) = Some (name f) \<and>
         \<not> is_processing (apply_cmds (apply_cmds a cs1) cs2) \<and>
         m = None \<and> error u1 = None"
  using assms upload_round_trip [OF assms(1), of k] by auto

theorem upload_success_publishes_result_witness:
  "cur_filter (apply_cmds (apply_cmds app_init [SetIsProcessing True])
      [SetFilter ''blur'', SetFilename ''cat.png'', SetIsProcessing False]) = Some ''blur'' \<and>
   filename (apply_cmds (apply_cmds app_init [SetIsProcessing True])
      [SetFilter ''blur'', SetFilename ''cat.png'', SetIsProcessing False]) = Some ''cat.png''"
proof -
  let ?f = "\<lparr>file_id = 8, name = ''cat.png'', size = 1000, file_type = ''image/png''\<rparr>"
  let ?u = "upload_form_init\<lparr>selected_file := Some ?f\<rparr>"
  have s: "handleUpload_start ''blur'' ?u =
      (?u\<lparr>error := None\<rparr>, [SetIsProcessing True], Some \<lparr>req_file = ?f, req_filter = ''blur''\<rparr>)"
    by (simp add: handleUpload_start_def)
  have r: "handleUpload_finish \<lparr>req_file = ?f, req_filter = ''blur''\<rparr> (Http_Ok True None) =
      (None, [SetFilter ''blur'', SetFilename ''cat.png'', SetIsProcessing False])"
    by (simp add: handleUpload_finish_def)
  show ?thesis using upload_success_publishes_result [OF _ s r, where a = app_init] by simp
qed

text \<open>C10. When no reply arrives (network failure or timeout) the form shows the generic
  connectivity message, processing ends, and \<open>App\<close>'s result is left as it was
  before the click: the state never becomes Succeeded.\<close>

theorem transport_failure_reports_offline:
  assumes "handleUpload_start k u = (u1, cs1, Some req)"
    and "handleUpload_finish req No_Response = (m, cs2)"
  shows "m = Some msg_offline \<and>
         proc_abs (apply_cmds (apply_cmds a cs1) cs2) (set_error_opt m u1) = Failed msg_offline \<and>
         filename (apply_cmds (apply_cmds a cs1) cs2) = filename a \<and>
         cur_filter (apply_cmds (apply_cmds a cs1) cs2) = cur_filter a"
  using assms
  by (auto simp: handleUpload_start_def handleUpload_finish_def proc_abs_def set_error_opt_def
      split: option.splits)

theorem transport_failure_reports_offline_witness:
  "proc_abs (apply_cmds (apply_cmds app_init [SetIsProcessing True]) [SetIsProcessing False])
     (set_error_opt (Some msg_offline) (upload_form_init\<lparr>error := None\<rparr>)) = Failed msg_offline"
proof -
  let ?f = "\<lparr>file_id = 9, name = ''cat.png'', size = 1000, file_type = ''image/png''\<rparr>"
  let ?u = "upload_form_init\<lparr>selected_file := Some ?f\<rparr>"
  have s: "handleUpload_start ''blur'' ?u =
      (?u\<lparr>error := None\<rparr>, [SetIsProcessing True], Some \<lparr>req_file = ?f, req_filter = ''blur''\<rparr>)"
    by (simp add: handleUpload_start_def)
  have r: "handleUpload_finish \<lparr>req_file = ?f, req_filter = ''blur''\<rparr> No_Response =
      (Some msg_offline, [SetIsProcessing False])"
    by (simp add: handleUpload_finish_def)
  have "proc_abs (apply_cmds (apply_cmds app_init [SetIsProcessing True]) [SetIsProcessing False])
     (set_error_opt (Some msg_offline) (?u\<lparr>error := None\<rparr>)) = Failed msg_offline"
    using transport_failure_reports_offline [OF s r, where a = app_init] by simp
  then show ?thesis by (simp add: set_error_opt_def proc_abs_def)
qed

text \<open>C11. Refinement of the specification's lifecycle: from a page that shows no
  processing, a click with a file selected moves the abstract state to InFlight, and
  the settled reply moves it to the terminal state the specification prescribes for
  the reply's class, for every reply except a non-2xx reply that carries a message.\<close>

theorem upload_refines_spec_lifecycle:
  assumes "selected_file u = Some f"
    and "handleUpload_start k u = (u1, cs1, Some req)"
    and "handleUpload_finish req r = (m, cs2)"
    and "\<not> (\<exists>e. r = Http_Error (Some e) \<and> e \<noteq> [])"
  shows "proc_abs (apply_cmds a cs1) u1 = InFlight \<and>
         proc_abs (apply_cmds (apply_cmds a cs1) cs2) (set_error_opt m u1) =
           spec_view (spec_classify (name f) k r)"
  using assms upload_round_trip [OF assms(1)]
  by (auto simp: proc_abs_def set_error_opt_def js_or_def js_truthy_def split: response.splits option.splits bool.splits)

theorem upload_refines_spec_lifecycle_witness:
  "proc_abs (apply_cmds app_init [SetIsProcessing True]) (upload_form_init\<lparr>selected_file :=
      Some \<lparr>file_id = 10, name = ''dog.jpg'', size = 5, file_type = ''image/jpeg''\<rparr>\<rparr>) = InFlight \<and>
   proc_abs (apply_cmds (apply_cmds app_init [SetIsProcessing True]) [SetIsProcessing False])
     (upload_form_init\<lparr>selected_file :=
      Some \<lparr>file_id = 10, name = ''dog.jpg'', size = 5, file_type = ''image/jpeg''\<rparr>,
      error := Some ''Error: bad image''\<rparr>) = Failed ''Error: bad image''"
proof -
  let ?f = "\<lparr>file_id = 10, name = ''dog.jpg'', size = 5, file_type = ''image/jpeg''\<rparr>"
  let ?u = "upload_form_init\<lparr>selected_file := Some ?f\<rparr>"
  have s: "handleUpload_start ''emboss'' ?u =
      (?u\<lparr>error := None\<rparr>, [SetIsProcessing True], Some \<lparr>req_file = ?f, req_filter = ''emboss''\<rparr>)"
    by (simp add: handleUpload_start_def)
  have r: "handleUpload_finish \<lparr>req_file = ?f, req_filter = ''emboss''\<rparr> (Http_Ok False (Some ''bad image'')) =
      (Some ''Error: bad image'', [SetIsProcessing False])"
    by (simp add: handleUpload_finish_def)
  have "selected_file ?u = Some ?f" by simp
  from upload_refines_spec_lifecycle [OF this s r, where a = app_init]
  show ?thesis by (simp add: set_error_opt_def upload_form_init_def)
qed


text \<open>C12. A non-2xx reply that carries an error message is shown as that bare message,
  while the specification classes every non-2xx reply as a transport error to be shown
  as the generic connectivity message (spec sections 6 and 7).\<close>

theorem http_error_message_shown_verbatim:
  assumes "e \<noteq> []"
  shows "handleUpload_finish req (Http_Error (Some e)) = (Some e, [SetIsProcessing False]) \<and>
         spec_view (spec_classify n k (Http_Error (Some e))) = Failed msg_offline"
  using assms by (simp add: handleUpload_finish_def)

theorem http_error_message_shown_verbatim_witness:
  "handleUpload_finish \<lparr>req_file = \<lparr>file_id = 11, name = ''x.png'', size = 1, file_type = ''image/png''\<rparr>,
      req_filter = ''blur''\<rparr> (Http_Error (Some ''Invalid filter'')) =
     (Some ''Invalid filter'', [SetIsProcessing False]) \<and>
   ''Invalid filter'' \<noteq> msg_offline"
  using http_error_message_shown_verbatim [of "''Invalid filter''"
      "\<lparr>req_file = \<lparr>file_id = 11, name = ''x.png'', size = 1, file_type = ''image/png''\<rparr>, req_filter = ''blur''\<rparr>"
      "''x.png''" "''blur''"]
  by (simp add: msg_offline_def)


text \<open>C30. The continuation publishes a filter only for a successful 2xx reply, and
  then exactly the filter of the request: every other reply leaves \<open>App\<close>'s
  published filter alone.\<close>

theorem finish_publishes_filter_iff_success:
  "SetFilter k \<in> set (snd (handleUpload_finish req r)) \<longleftrightarrow>
     k = req_filter req \<and> (\<exists>e. r = Http_Ok True e)"
  by (cases r) (auto simp: handleUpload_finish_def)


end
