(* ===== verification/Renderer.thy ===== *)
theory Renderer
  imports Js_Number App_State
begin

text \<open>
  The comparison renderer, \<open>ProcessedImage\<close>
  (\<open>src/DIP/src/components/ProcessedImage.jsx\<close>). Its local state (lines 5--8) is
  the view mode, whether a slider drag is being tracked, the slider position and a
  loaded flag; React additionally remembers the \<open>filter\<close> prop the reset effect
  (lines 11--13) last ran with. Its props are \<open>App\<close>'s \<open>filename\<close>, \<open>filter\<close> and
  \<open>isProcessing\<close>. The handlers are the toggle buttons, the mouse and touch handlers
  of the slider (lines 33--40 and 131--144) and the original image's \<open>onLoad\<close>. The
  markup (lines 15--196) is modelled as \<open>render\<close>, which returns what is shown: the
  placeholder, or the toggle, the body in the current mode and the download link,
  with the URLs and captions the code builds.
\<close>

datatype view_mode = Side_By_Side | Comparison

record renderer =
  view_mode :: view_mode
  is_comparing :: bool
  compare_position :: jsnum
  image_loaded :: bool
  seen_filter :: "string option"

text \<open>Mounting: the initial state, and the reset effect's first run with the current
  \<open>filter\<close> prop.\<close>

definition renderer_init :: "string option \<Rightarrow> renderer" where
  "renderer_init f = \<lparr>view_mode = Side_By_Side, is_comparing = False, compare_position = Num 50,
                      image_loaded = False, seen_filter = f\<rparr>"

subsection \<open>Handlers\<close>

definition setViewMode :: "view_mode \<Rightarrow> renderer \<Rightarrow> renderer" where
  "setViewMode m r = r\<lparr>view_mode := m\<rparr>"

definition start_comparing :: "renderer \<Rightarrow> renderer" where
  "start_comparing r = r\<lparr>is_comparing := True\<rparr>"

definition stop_comparing :: "renderer \<Rightarrow> renderer" where
  "stop_comparing r = r\<lparr>is_comparing := False\<rparr>"

text \<open>\<open>Math.max(0, Math.min(100, (x / rect.width) * 100))\<close> with
  \<open>x = clientX - rect.left\<close>; the two coordinates are finite.\<close>

definition compare_percent :: "real \<Rightarrow> real \<Rightarrow> real \<Rightarrow> jsnum" where
  "compare_percent client_x rect_left rect_width =
     js_max (Num 0) (js_min (Num 100)
       (js_mul (js_div (Num (client_x - rect_left)) (Num rect_width)) (Num 100)))"

text \<open>\<open>handleCompareMove\<close> (mouse, \<open>e.clientX\<close>) and the inline touch handler
  (\<open>e.touches[0].clientX\<close>) compute the same update.\<close>

definition handleCompareMove :: "real \<Rightarrow> real \<Rightarrow> real \<Rightarrow> renderer \<Rightarrow> renderer" where
  "handleCompareMove client_x rect_left rect_width r =
     (if is_comparing r
      then r\<lparr>compare_position := compare_percent client_x rect_left rect_width\<rparr>
      else r)"

definition handleTouchMove :: "real \<Rightarrow> real \<Rightarrow> real \<Rightarrow> renderer \<Rightarrow> renderer" where
  "handleTouchMove touch_x rect_left rect_width r =
     (if is_comparing r
      then r\<lparr>compare_position := compare_percent touch_x rect_left rect_width\<rparr>
      else r)"

definition original_loaded :: "renderer \<Rightarrow> renderer" where
  "original_loaded r = r\<lparr>image_loaded := True\<rparr>"

text \<open>The effect with dependency \<open>[filter]\<close>, run after a render whose \<open>filter\<close>
  prop differs from the one it last ran with.\<close>

definition filter_effect :: "string option \<Rightarrow> renderer \<Rightarrow> renderer" where
  "filter_effect f r =
     (if f = seen_filter r then r else r\<lparr>image_loaded := False, seen_filter := f\<rparr>)"

datatype renderer_event =
    Toggle view_mode
  | Mouse_Down | Mouse_Up | Mouse_Leave | Mouse_Move real real real
  | Touch_Start | Touch_End | Touch_Move real real real
  | Original_Load

fun renderer_handler :: "renderer_event \<Rightarrow> renderer \<Rightarrow> renderer" where
  "renderer_handler (Toggle m) r = setViewMode m r"
| "renderer_handler Mouse_Down r = start_comparing r"
| "renderer_handler Mouse_Up r = stop_comparing r"
| "renderer_handler Mouse_Leave r = stop_comparing r"
| "renderer_handler (Mouse_Move x l w) r = handleCompareMove x l w r"
| "renderer_handler Touch_Start r = start_comparing r"
| "renderer_handler Touch_End r = stop_comparing r"
| "renderer_handler (Touch_Move x l w) r = handleTouchMove x l w r"
| "renderer_handler Original_Load r = original_loaded r"

subsection \<open>Rendering\<close>

definition server_base :: string where
  "server_base = ''http://127.0.0.1:5000''"

definition original_image :: "fname \<Rightarrow> string" where
  "original_image fn = server_base @ ''/uploads/'' @ fn"

definition processed_image :: "string option \<Rightarrow> fname \<Rightarrow> string" where
  "processed_image f fn = server_base @ ''/processed/'' @ js_template_null f @ ''_'' @ fn"

definition download_name :: "string option \<Rightarrow> fname \<Rightarrow> string" where
  "download_name f fn = js_template_null f @ ''_processed_'' @ fn"

text \<open>\<open>formatFilterName\<close> (lines 43--46): words split at '_', first letter upper-cased,
  joined with spaces.\<close>

definition capitalize :: "string \<Rightarrow> string" where
  "capitalize w = js_to_upper (take 1 w) @ drop 1 w"

definition formatFilterName :: "string option \<Rightarrow> string" where
  "formatFilterName n =
     (if \<not> js_truthy n then [] else js_join '' '' (map capitalize (js_split CHR ''_'' (the n))))"

datatype pane = Pane_Spinner | Pane_Image string string | Pane_Empty

datatype body =
    Side_View string bool string pane
  | Slider_View string string jsnum string
  | No_Body

record result_view =
  show_toggle :: bool
  body :: body
  download_link :: "(string \<times> string) option"

datatype screen = Placeholder | Result result_view

text \<open>The side-by-side caption of the processed pane (lines 98--106).\<close>

definition pane_caption :: "string option \<Rightarrow> bool \<Rightarrow> string" where
  "pane_caption f processing =
     (if processing then ''Processing...''
      else if js_truthy f then formatFilterName f @ '' Filter''
      else ''Awaiting Processing'')"

definition render :: "app_state \<Rightarrow> renderer \<Rightarrow> screen" where
  "render a r =
     (if \<not> js_truthy (filename a) then Placeholder
      else
        (let fn = the (filename a); f = cur_filter a; busy = is_processing a;
             ready = js_truthy f \<and> \<not> busy
         in Result
           \<lparr>show_toggle = ready,
            body =
              (case view_mode r of
                 Side_By_Side \<Rightarrow>
                   Side_View (original_image fn) busy (pane_caption f busy)
                     (if busy then Pane_Spinner
                      else if js_truthy f then Pane_Image (processed_image f fn) (formatFilterName f)
                      else Pane_Empty)
               | Comparison \<Rightarrow>
                   (if ready
                    then Slider_View (original_image fn) (processed_image f fn)
                           (compare_position r) (formatFilterName f)
                    else No_Body)),
            download_link =
              (if ready then Some (processed_image f fn, download_name f fn) else None)\<rparr>))"

text \<open>Whether a screen refers to the processed image anywhere (pane, slider layer or
  download link), and whether the slider element is on the page (its handlers can
  receive events only then).\<close>

fun body_shows_processed :: "body \<Rightarrow> bool" where
  "body_shows_processed (Side_View _ _ _ (Pane_Image _ _)) = True"
| "body_shows_processed (Slider_View _ _ _ _) = True"
| "body_shows_processed _ = False"

fun shows_processed :: "screen \<Rightarrow> bool" where
  "shows_processed Placeholder = False"
| "shows_processed (Result v) = (body_shows_processed (body v) \<or> download_link v \<noteq> None)"

fun slider_on_page :: "screen \<Rightarrow> bool" where
  "slider_on_page (Result v) = (case body v of Slider_View _ _ _ _ \<Rightarrow> True | _ \<Rightarrow> False)"
| "slider_on_page Placeholder = False"

text \<open>The address of the original image on the screen, if the body shows it.\<close>

fun shown_original :: "screen \<Rightarrow> string option" where
  "shown_original Placeholder = None"
| "shown_original (Result v) =
     (case body v of Side_View src _ _ _ \<Rightarrow> Some src | Slider_View src _ _ _ \<Rightarrow> Some src | No_Body \<Rightarrow> None)"

subsection \<open>Lemmas\<close>

lemma compare_percent_pos:
  "0 < w \<Longrightarrow> compare_percent x l w = Num (max 0 (min 100 ((x - l) / w * 100)))"
  by (simp add: compare_percent_def)

lemma stop_comparing_frame [simp]:
  "compare_position (stop_comparing r) = compare_position r"
  "view_mode (stop_comparing r) = view_mode r"
  "is_comparing (stop_comparing r) = False"
  by (simp_all add: stop_comparing_def)

lemma moves_idle [simp]:
  "\<not> is_comparing r \<Longrightarrow> handleCompareMove x l w r = r"
  "\<not> is_comparing r \<Longrightarrow> handleTouchMove x l w r = r"
  by (simp_all add: handleCompareMove_def handleTouchMove_def)

lemma filter_effect_frame [simp]:
  "view_mode (filter_effect f r) = view_mode r"
  "is_comparing (filter_effect f r) = is_comparing r"
  "compare_position (filter_effect f r) = compare_position r"
  by (simp_all add: filter_effect_def)


lemmas render_simps = render_def Let_def pane_caption_def

text \<open>A screen with a published filter and no request in flight shows the processed
  image and offers it for download.\<close>

lemma render_ready:
  assumes "filename a = Some fn" "fn \<noteq> []" "cur_filter a = Some k" "k \<noteq> []" "\<not> is_processing a"
  shows "\<exists>v. render a r = Result v \<and> show_toggle v \<and> body_shows_processed (body v) \<and>
           download_link v = Some (processed_image (Some k) fn, download_name (Some k) fn)"
  using assms by (simp add: render_simps split: view_mode.split)

subsection \<open>Properties of the renderer\<close>

text \<open>C13. For a container of positive width the slider position is the pointer's
  offset from the container's left edge as a percentage of its width, clamped to
  [0, 100]: it is always a finite number in that range and equals the exact
  percentage while the pointer is over the container.\<close>

theorem compare_percent_bounds:
  assumes "0 < w"
  shows "\<exists>p. compare_percent x l w = Num p \<and> 0 \<le> p \<and> p \<le> 100 \<and>
             (0 \<le> x - l \<and> x - l \<le> w \<longrightarrow> p = (x - l) / w * 100)"
proof -
  define d where "d = (x - l) / w"
  let ?p = "max 0 (min 100 (d * 100))"
  have cp: "compare_percent x l w = Num ?p"
    using assms by (simp add: compare_percent_pos d_def)
  have range: "0 \<le> ?p \<and> ?p \<le> 100" by simp
  have exact: "?p = (x - l) / w * 100" if "0 \<le> x - l" "x - l \<le> w"
  proof -
    from that assms have "0 \<le> d" "d \<le> 1" by (simp_all add: d_def divide_le_eq_1_pos)
    then have "?p = d * 100" by linarith
    then show ?thesis by (simp add: d_def)
  qed
  from cp range exact show ?thesis by blast
qed

theorem compare_percent_bounds_witness:
  "compare_percent 50 0 200 = Num 25 \<and> compare_percent 260 0 200 = Num 100 \<and>
   compare_percent (-20) 0 200 = Num 0"
proof -
  from compare_percent_bounds [of 200 50 0]
  have "compare_percent 50 0 200 = Num ((50 - 0) / 200 * 100)" by auto
  then show ?thesis by (simp add: compare_percent_def)
qed

text \<open>C14. Ending a drag (mouse up, pointer leaving the container, touch end) stops
  tracking and keeps the slider where it was; later pointer or touch moves leave the
  state unchanged until a new drag begins.\<close>

theorem drag_end_retains_position:
  assumes "e \<in> {Mouse_Up, Mouse_Leave, Touch_End}"
  shows "compare_position (renderer_handler e r) = compare_position r \<and>
         \<not> is_comparing (renderer_handler e r) \<and>
         renderer_handler (Mouse_Move x l w) (renderer_handler e r) = renderer_handler e r \<and>
         renderer_handler (Touch_Move x l w) (renderer_handler e r) = renderer_handler e r"
  using assms by auto

theorem drag_end_retains_position_witness:
  "compare_position (renderer_handler Mouse_Up (renderer_init None\<lparr>is_comparing := True,
      compare_position := Num 30\<rparr>)) = Num 30 \<and>
   renderer_handler (Mouse_Move 10 0 100) (renderer_handler Mouse_Up (renderer_init None\<lparr>is_comparing := True,
      compare_position := Num 30\<rparr>)) = renderer_handler Mouse_Up (renderer_init None\<lparr>is_comparing := True,
      compare_position := Num 30\<rparr>)"
  using drag_end_retains_position [of Mouse_Up "renderer_init None\<lparr>is_comparing := True,
      compare_position := Num 30\<rparr>" 10 0 100]
  by (simp add: renderer_init_def)

text \<open>C15. The processed image (in a pane, as the slider's top layer or as the
  download link) is on the page only when a filter has been published and no request
  is in flight.\<close>

theorem render_processed_only_when_ready:
  assumes "shows_processed (render a r)"
  shows "js_truthy (cur_filter a) \<and> \<not> is_processing a \<and> js_truthy (filename a)"
  using assms by (auto simp: render_simps split: if_splits view_mode.splits)

theorem render_processed_only_when_ready_witness:
  "shows_processed (render (app_init\<lparr>filename := Some ''cat.png'', cur_filter := Some ''blur''\<rparr>)
      (renderer_init (Some ''blur''))) \<and>
   js_truthy (cur_filter (app_init\<lparr>filename := Some ''cat.png'', cur_filter := Some ''blur''\<rparr>))"
proof -
  have s: "shows_processed (render (app_init\<lparr>filename := Some ''cat.png'', cur_filter := Some ''blur''\<rparr>)
      (renderer_init (Some ''blur'')))"
    by (simp add: render_simps app_init_def renderer_init_def)
  show ?thesis using s render_processed_only_when_ready [OF s] by simp
qed

text \<open>C16. While a request is in flight the side-by-side view shows the spinner in
  place of the processed pane and dims the original, but the slider view shows
  nothing at all (no loading indicator), and neither offers the toggle or the download.\<close>

theorem render_while_processing:
  assumes "is_processing a" and "js_truthy (filename a)"
  shows "(view_mode r = Side_By_Side \<longrightarrow>
            render a r = Result \<lparr>show_toggle = False,
              body = Side_View (original_image (the (filename a))) True ''Processing...'' Pane_Spinner,
              download_link = None\<rparr>) \<and>
         (view_mode r = Comparison \<longrightarrow>
            render a r = Result \<lparr>show_toggle = False, body = No_Body, download_link = None\<rparr>)"
  using assms by (simp add: render_simps)

theorem render_while_processing_witness:
  "render (app_init\<lparr>filename := Some ''cat.png'', is_processing := True\<rparr>)
     (renderer_init None\<lparr>view_mode := Comparison\<rparr>) =
   Result \<lparr>show_toggle = False, body = No_Body, download_link = None\<rparr>"
  using render_while_processing [of "app_init\<lparr>filename := Some ''cat.png'', is_processing := True\<rparr>"
      "renderer_init None\<lparr>view_mode := Comparison\<rparr>"]
  by (simp add: app_init_def renderer_init_def)


end
