(* ===== verification/Session.thy ===== *)
theory Session
  imports Submission Renderer Form_View
begin

text \<open>
  The page as a whole (\<open>src/DIP/src/App.jsx\<close> with its two children): \<open>App\<close>'s
  state, the upload form and the result view when the upload tab is shown (line 81:
  switching tabs unmounts and remounts both), the browser's blob store, and the
  requests in flight, each with the form instance whose \<open>setError\<close> its
  continuation will call. The field \<open>sent\<close> is an auxiliary variable that no code
  reads: the list of every request the page has sent to the server, in order. It
  lets the properties speak about what the server can have produced. A step is one event the browser delivers: a user event on
  an element that is on the page and enabled, or the settling of one of the requests
  in flight, in any order (the event loop does not serialise them). After each step
  React re-renders and runs the result view's reset effect if \<open>filter\<close> changed.
  \<open>session_step\<close> returns None for an event that cannot be delivered in the state
  (its element is not rendered, or is disabled).
\<close>

record session =
  app :: app_state
  form :: "upload_form option"
  view :: "renderer option"
  blobs :: blob_store
  pending :: "(nat \<times> upload_request) list"
  form_instance :: nat
  sent :: "upload_request list"

datatype event =
    Form_Event form_event
  | Click_Filter string
  | Reply nat response
  | View_Event renderer_event
  | Window_Mouse_Move real real
  | Select_Tab tab

definition session_init :: session where
  "session_init =
     (case mount_form blob_init of (u, b) \<Rightarrow>
        \<lparr>app = app_init, form = Some u, view = Some (renderer_init (cur_filter app_init)),
         blobs = b, pending = [], form_instance = 0, sent = []\<rparr>)"

text \<open>The re-render after a step: the result view's effect sees the new \<open>filter\<close>.\<close>

definition rerender :: "session \<Rightarrow> session" where
  "rerender s = s\<lparr>view := map_option (filter_effect (cur_filter (app s))) (view s)\<rparr>"

text \<open>Which result-view events its rendered elements can receive: the toggle buttons
  when shown, the slider handlers when the slider is on the page, the original
  image's \<open>onLoad\<close> in the side-by-side view.\<close>

definition view_accepts :: "screen \<Rightarrow> renderer_event \<Rightarrow> bool" where
  "view_accepts sc e =
     (case e of
        Toggle _ \<Rightarrow> (case sc of Result v \<Rightarrow> show_toggle v | Placeholder \<Rightarrow> False)
      | Original_Load \<Rightarrow>
          (case sc of Result v \<Rightarrow> (case body v of Side_View _ _ _ _ \<Rightarrow> True | _ \<Rightarrow> False)
                    | Placeholder \<Rightarrow> False)
      | _ \<Rightarrow> slider_on_page sc)"

text \<open>Tabs: selecting the shown tab changes nothing; leaving the upload tab unmounts
  the form (its effect cleanup runs) and the result view; returning mounts fresh ones.\<close>

definition switch_tab :: "tab \<Rightarrow> session \<Rightarrow> session" where
  "switch_tab t s =
     (if t = active_tab (app s) then s
      else if t = About_Tab then
        s\<lparr>app := set_active_tab t (app s), form := None, view := None,
          blobs := (case form s of Some u \<Rightarrow> unmount_form u (blobs s) | None \<Rightarrow> blobs s)\<rparr>
      else
        (case mount_form (blobs s) of (u, b) \<Rightarrow>
          s\<lparr>app := set_active_tab t (app s), form := Some u,
            view := Some (renderer_init (cur_filter (app s))), blobs := b,
            form_instance := Suc (form_instance s)\<rparr>))"

fun session_step :: "session \<Rightarrow> event \<Rightarrow> session option" where
  "session_step s (Form_Event e) =
     (case form s of
        None \<Rightarrow> None
      | Some u \<Rightarrow>
          (case form_step e u (blobs s) of (u', b', cs) \<Rightarrow>
             Some (rerender (s\<lparr>app := apply_cmds (app s) cs, form := Some u', blobs := b'\<rparr>))))"
| "session_step s (Click_Filter k) =
     (case form s of
        None \<Rightarrow> None
      | Some u \<Rightarrow>
          if \<not> button_enabled (render_form u) k then None
          else
            (case handleUpload_start k u of (u', cs, req) \<Rightarrow>
               Some (rerender (s\<lparr>app := apply_cmds (app s) cs, form := Some u',
                 pending := pending s @ (case req of None \<Rightarrow> [] | Some q \<Rightarrow> [(form_instance s, q)]),
                 sent := sent s @ (case req of None \<Rightarrow> [] | Some q \<Rightarrow> [q])\<rparr>))))"
| "session_step s (Reply i r) =
     (if length (pending s) \<le> i then None
      else
        (case pending s ! i of (inst, req) \<Rightarrow>
          (case handleUpload_finish req r of (m, cs) \<Rightarrow>
             Some (rerender (s\<lparr>app := apply_cmds (app s) cs,
               form := (if inst = form_instance s then map_option (set_error_opt m) (form s)
                        else form s),
               pending := take i (pending s) @ drop (Suc i) (pending s)\<rparr>)))))"
| "session_step s (View_Event e) =
     (case view s of
        None \<Rightarrow> None
      | Some r \<Rightarrow>
          if view_accepts (render (app s) r) e then Some (s\<lparr>view := Some (renderer_handler e r)\<rparr>)
          else None)"
| "session_step s (Window_Mouse_Move x y) = Some (s\<lparr>app := handle_mouse_move x y (app s)\<rparr>)"
| "session_step s (Select_Tab t) = Some (rerender (switch_tab t s))"

fun run :: "session \<Rightarrow> event list \<Rightarrow> session option" where
  "run s [] = Some s"
| "run s (e # es) = (case session_step s e of None \<Rightarrow> None | Some s' \<Rightarrow> run s' es)"

text \<open>The invariant of the page: the form and the result view are mounted exactly
  on the upload tab; the object URLs are the mounted form's preview (none when it is
  unmounted); the in-flight flag is only up while a request is pending; every filter
  published or in flight is a catalog identifier.\<close>

definition session_inv :: "session \<Rightarrow> bool" where
  "session_inv s \<longleftrightarrow>
     (form s \<noteq> None \<longleftrightarrow> active_tab (app s) = Upload_Tab) \<and>
     (view s \<noteq> None \<longleftrightarrow> active_tab (app s) = Upload_Tab) \<and>
     (case form s of
        Some u \<Rightarrow> preview_inv u (blobs s)
      | None \<Rightarrow> live_urls (blobs s) = {} \<and> (\<forall>x \<in> set (revoked (blobs s)). x < next_url (blobs s))) \<and>
     (is_processing (app s) \<longrightarrow> pending s \<noteq> []) \<and>
     (\<forall>k. cur_filter (app s) = Some k \<longrightarrow> k \<in> set filter_keys) \<and>
     (\<forall>p \<in> set (pending s). req_filter (snd p) \<in> set filter_keys)"

inductive reachable :: "session \<Rightarrow> bool" where
  init: "reachable session_init"
| step: "reachable s \<Longrightarrow> session_step s e = Some s' \<Longrightarrow> reachable s'"

subsection \<open>Lemmas on the steps\<close>

lemma form_handler_cmds:
  "snd (form_handler e u) = [] \<or> (\<exists>n. snd (form_handler e u) = [SetFilename n])"
  by (cases e) (auto simp: handleFileChange_def handleDrop_def Let_def split: option.split list.split)

lemma form_step_cmds:
  assumes "form_step e u b = (u', b', cs)"
  shows "is_processing (apply_cmds a cs) = is_processing a \<and> cur_filter (apply_cmds a cs) = cur_filter a"
proof -
  from assms have "cs = snd (form_handler e u)"
    by (auto simp: form_step_def ingest_def split: prod.splits)
  with form_handler_cmds [of e u] show ?thesis by auto
qed

lemma preview_inv_error_frame:
  "preview_inv u b \<Longrightarrow> preview_inv (u\<lparr>error := m\<rparr>) b"
  by (simp add: preview_inv_def)

lemma set_error_opt_preview_inv:
  "preview_inv u b \<Longrightarrow> preview_inv (set_error_opt m u) b"
  by (cases m) (simp_all add: set_error_opt_def preview_inv_error_frame)

lemma handleUpload_start_inv:
  assumes "handleUpload_start k u = (u', cs, req)" and "preview_inv u b"
  shows "preview_inv u' b \<and> cs = (case req of None \<Rightarrow> [] | Some q \<Rightarrow> [SetIsProcessing True]) \<and>
         (\<forall>q. req = Some q \<longrightarrow> req_filter q = k)"
  using assms by (auto simp: handleUpload_start_def preview_inv_error_frame split: option.splits)

lemma handleUpload_finish_cmds:
  assumes "handleUpload_finish req r = (m, cs)"
  shows "\<not> is_processing (apply_cmds a cs) \<and>
         cur_filter (apply_cmds a cs) \<in> {cur_filter a, Some (req_filter req)} \<and>
         active_tab (apply_cmds a cs) = active_tab a"
  using assms by (auto simp: handleUpload_finish_def split: response.splits if_splits)

lemma rerender_frame [simp]:
  "app (rerender s) = app s" "form (rerender s) = form s" "blobs (rerender s) = blobs s"
  "pending (rerender s) = pending s" "(view (rerender s) = None) = (view s = None)"
  by (simp_all add: rerender_def)

lemma session_inv_rerender [simp]: "session_inv (rerender s) = session_inv s"
  by (simp add: session_inv_def rerender_def split: option.split)

lemma mount_form_preview_inv:
  assumes "live_urls b = {}" "\<forall>x \<in> set (revoked b). x < next_url b"
  shows "preview_inv (fst (mount_form b)) (snd (mount_form b))"
  using assms unfolding mount_form_def by (intro preview_effect_inv) (simp_all add: upload_form_init_def)

lemma unmount_form_released:
  assumes "preview_inv u b"
  shows "live_urls (unmount_form u b) = {} \<and>
         (\<forall>x \<in> set (revoked (unmount_form u b)). x < next_url (unmount_form u b))"
  using assms
  by (auto simp: unmount_form_def run_cleanup_def revoke_object_url_def preview_inv_def
      split: option.splits)

lemma session_inv_init: "session_inv session_init"
  by (simp add: session_inv_def session_init_def mount_form_def preview_effect_def
      upload_form_init_def blob_init_def app_init_def preview_inv_def)


lemma form_event_inv:
  assumes inv: "session_inv s" and st: "session_step s (Form_Event e) = Some s'"
  shows "session_inv s'"
proof -
  from st obtain u where u: "form s = Some u" by (cases "form s") auto
  obtain u' b' cs where fs: "form_step e u (blobs s) = (u', b', cs)" by (metis prod.exhaust)
  from st u fs have s': "s' = rerender (s\<lparr>app := apply_cmds (app s) cs, form := Some u', blobs := b'\<rparr>)"
    by simp
  from inv u have "preview_inv u (blobs s)" by (simp add: session_inv_def)
  then have "preview_inv u' b'" using fs by (rule form_step_preview_inv)
  with inv u form_step_cmds [OF fs, of "app s"] show ?thesis
    by (simp add: s' session_inv_def)
qed

lemma click_inv:
  assumes inv: "session_inv s" and st: "session_step s (Click_Filter k) = Some s'"
  shows "session_inv s'"
proof -
  from st obtain u where u: "form s = Some u" and k: "k \<in> set filter_keys"
    by (cases "form s") (auto simp: button_enabled_iff split: if_splits)
  obtain u' cs req where hs: "handleUpload_start k u = (u', cs, req)" by (metis prod.exhaust)
  from st u k hs have s': "s' = rerender (s\<lparr>app := apply_cmds (app s) cs, form := Some u',
      pending := pending s @ (case req of None \<Rightarrow> [] | Some q \<Rightarrow> [(form_instance s, q)]),
      sent := sent s @ (case req of None \<Rightarrow> [] | Some q \<Rightarrow> [q])\<rparr>)"
    by (auto split: if_splits)
  from inv u have "preview_inv u (blobs s)" by (simp add: session_inv_def)
  with handleUpload_start_inv [OF hs] inv u k show ?thesis
    by (cases req) (auto simp: s' session_inv_def)
qed

lemma reply_inv:
  assumes inv: "session_inv s" and st: "session_step s (Reply i r) = Some s'"
  shows "session_inv s'"
proof -
  from st have i: "i < length (pending s)" by (auto split: if_splits)
  obtain inst req where p: "pending s ! i = (inst, req)" by (metis prod.exhaust)
  obtain m cs where hf: "handleUpload_finish req r = (m, cs)" by (metis prod.exhaust)
  from st i p hf have s': "s' = rerender (s\<lparr>app := apply_cmds (app s) cs,
      form := (if inst = form_instance s then map_option (set_error_opt m) (form s) else form s),
      pending := take i (pending s) @ drop (Suc i) (pending s)\<rparr>)"
    by simp
  from i p have "(inst, req) \<in> set (pending s)" by (metis nth_mem)
  with inv have kreq: "req_filter req \<in> set filter_keys" by (auto simp: session_inv_def)
  have sub: "set (take i (pending s) @ drop (Suc i) (pending s)) \<subseteq> set (pending s)"
    using set_take_subset set_drop_subset by fastforce
  from inv have "\<forall>u. form s = Some u \<longrightarrow> preview_inv (set_error_opt m u) (blobs s)"
    by (auto simp: session_inv_def set_error_opt_preview_inv)
  with inv kreq sub handleUpload_finish_cmds [OF hf, of "app s"] show ?thesis
    by (auto simp: s' session_inv_def split: option.splits)
qed

lemma view_event_inv:
  assumes "session_inv s" and "session_step s (View_Event e) = Some s'"
  shows "session_inv s'"
  using assms by (auto simp: session_inv_def split: option.splits if_splits)

lemma mouse_move_inv:
  assumes "session_inv s" and "session_step s (Window_Mouse_Move x y) = Some s'"
  shows "session_inv s'"
  using assms by (auto simp: session_inv_def handle_mouse_move_def)

lemma switch_tab_inv:
  assumes inv: "session_inv s"
  shows "session_inv (switch_tab t s)"
proof (cases "t = active_tab (app s)")
  case True
  with inv show ?thesis by (simp add: switch_tab_def)
next
  case False
  show ?thesis
  proof (cases t)
    case About_Tab
    with False inv have "active_tab (app s) = Upload_Tab" by (cases "active_tab (app s)") auto
    with inv obtain u where u: "form s = Some u" and pu: "preview_inv u (blobs s)"
      by (auto simp: session_inv_def)
    from unmount_form_released [OF pu] inv False About_Tab u show ?thesis
      by (simp add: switch_tab_def session_inv_def set_active_tab_def)
  next
    case Upload_Tab
    with False inv have "active_tab (app s) = About_Tab" by (cases "active_tab (app s)") auto
    with inv have nf: "form s = None" and lv: "live_urls (blobs s) = {}"
      and rv: "\<forall>x \<in> set (revoked (blobs s)). x < next_url (blobs s)"
      by (auto simp: session_inv_def)
    obtain u b where m: "mount_form (blobs s) = (u, b)" by (metis prod.exhaust)
    from mount_form_preview_inv [OF lv rv] m have "preview_inv u b" by simp
    with inv False Upload_Tab m show ?thesis
      by (simp add: switch_tab_def session_inv_def set_active_tab_def)
  qed
qed

lemma session_step_inv:
  assumes "session_inv s" and "session_step s e = Some s'"
  shows "session_inv s'"
proof (cases e)
  case (Form_Event x)
  with assms show ?thesis using form_event_inv by blast
next
  case (Click_Filter k)
  with assms show ?thesis using click_inv by blast
next
  case (Reply i r)
  with assms show ?thesis using reply_inv by blast
next
  case (View_Event x)
  with assms show ?thesis using view_event_inv by blast
next
  case (Window_Mouse_Move x y)
  with assms show ?thesis using mouse_move_inv by blast
next
  case (Select_Tab t)
  with assms show ?thesis using switch_tab_inv by auto
qed

lemma reachable_session_inv: "reachable s \<Longrightarrow> session_inv s"
proof (induction rule: reachable.induct)
  case init
  show ?case by (rule session_inv_init)
next
  case (step s e s')
  then show ?case by (blast intro: session_step_inv)
qed

lemma run_reachable: "reachable s \<Longrightarrow> run s es = Some s' \<Longrightarrow> reachable s'"
proof (induction es arbitrary: s)
  case Nil
  then show ?case by simp
next
  case (Cons e es)
  then obtain s1 where "session_step s e = Some s1" and "run s1 es = Some s'"
    by (auto split: option.splits)
  with Cons show ?case by (blast intro: reachable.step)
qed


text \<open>The facts that evaluate a concrete run of the page by simplification.\<close>

lemmas session_eval = session_init_def mount_form_def preview_effect_def upload_form_init_def
  blob_init_def app_init_def renderer_init_def rerender_def filter_effect_def form_step_def
  ingest_def handleDrop_def allowed_file_def allowed_extensions_def max_file_size_eq
  commit_form_def run_cleanup_def create_object_url_def js_to_lower_def js_lower_char_def
  ascii_upper_letters_def ascii_lower_letters_def handleUpload_start_def handleUpload_finish_def
  set_error_opt_def filter_keys_eq button_enabled_iff view_accepts_def render_def pane_caption_def setViewMode_def
  start_comparing_def handleCompareMove_def compare_percent_def original_loaded_def Let_def

subsection \<open>Single steps of the page\<close>

lemma set_error_opt_None: "set_error_opt None = (\<lambda>u. u)"
  by (simp add: set_error_opt_def fun_eq_iff)

lemma session_drop_accepted:
  assumes "form s = Some u" "size f \<le> max_file_size" "allowed_file (name f)"
  shows "\<exists>s' u'. session_step s (Form_Event (Drop (f # fs))) = Some s' \<and>
     app s' = (app s)\<lparr>filename := Some (name f)\<rparr> \<and> form s' = Some u' \<and> selected_file u' = Some f \<and>
     pending s' = pending s \<and> sent s' = sent s \<and> view s' = map_option (filter_effect (cur_filter (app s))) (view s)"
proof -
  from form_step_drop_accepted [OF assms(2,3)] obtain u' b' where
    fs: "form_step (Drop (f # fs)) u (blobs s) = (u', b', [SetFilename (name f)])" and sel: "selected_file u' = Some f"
    by blast
  with assms(1) show ?thesis by (simp add: rerender_def)
qed

lemma session_click_selected:
  assumes "form s = Some u" "selected_file u = Some f" "k \<in> set filter_keys"
  shows "\<exists>s' u'. session_step s (Click_Filter k) = Some s' \<and>
     app s' = (app s)\<lparr>is_processing := True\<rparr> \<and> form s' = Some u' \<and> selected_file u' = Some f \<and>
     pending s' = pending s @ [(form_instance s, \<lparr>req_file = f, req_filter = k\<rparr>)] \<and>
     sent s' = sent s @ [\<lparr>req_file = f, req_filter = k\<rparr>] \<and>
     view s' = map_option (filter_effect (cur_filter (app s))) (view s)"
  using assms by (simp add: button_enabled_iff handleUpload_start_def rerender_def)

lemma session_reply:
  assumes "i < length (pending s)" "pending s ! i = (inst, q)"
  shows "\<exists>s'. session_step s (Reply i r) = Some s' \<and> \<not> is_processing (app s') \<and>
     pending s' = take i (pending s) @ drop (Suc i) (pending s) \<and> sent s' = sent s \<and>
     (form s' = None \<longleftrightarrow> form s = None) \<and>
     view s' = map_option (filter_effect (cur_filter (app s'))) (view s)"
proof -
  obtain m cs where hf: "handleUpload_finish q r = (m, cs)" by (metis prod.exhaust)
  from handleUpload_finish_cmds [OF hf, of "app s"] assms hf show ?thesis
    by (auto simp: rerender_def)
qed

lemma session_reply_success:
  assumes "i < length (pending s)" "pending s ! i = (inst, q)"
  shows "\<exists>s'. session_step s (Reply i (Http_Ok True e)) = Some s' \<and>
     app s' = (app s)\<lparr>cur_filter := Some (req_filter q), filename := Some (name (req_file q)),
                     is_processing := False\<rparr> \<and>
     form s' = form s \<and> pending s' = take i (pending s) @ drop (Suc i) (pending s) \<and> sent s' = sent s \<and>
     view s' = map_option (filter_effect (Some (req_filter q))) (view s)"
  using assms
  by (simp add: handleUpload_finish_def set_error_opt_None rerender_def option.map_ident)

lemma reachable_mounted:
  assumes "reachable s" "active_tab (app s) = Upload_Tab"
  obtains u r where "form s = Some u" "view s = Some r"
  using reachable_session_inv [OF assms(1)] assms(2) by (auto simp: session_inv_def)

lemma reachable_filters:
  assumes "reachable s"
  shows "cur_filter (app s) = Some k \<Longrightarrow> k \<noteq> []"
    and "p \<in> set (pending s) \<Longrightarrow> req_filter (snd p) \<noteq> []"
  using reachable_session_inv [OF assms] by (auto simp: session_inv_def filter_keys_nonempty)

lemma session_step_view:
  assumes inv: "session_inv s" and st: "session_step s e = Some s'"
    and r: "view s = Some r" and r': "view s' = Some r'"
  shows "r' = r \<or> (\<exists>f. r' = filter_effect f r) \<or>
         (\<exists>e'. e = View_Event e' \<and> view_accepts (render (app s) r) e' \<and> r' = renderer_handler e' r)"
proof (cases e)
  case (Select_Tab t)
  have "t = active_tab (app s)"
  proof (rule ccontr)
    assume ne: "t \<noteq> active_tab (app s)"
    from inv r have "active_tab (app s) = Upload_Tab" by (simp add: session_inv_def)
    with ne have "t = About_Tab" by (cases t) auto
    with ne st r' Select_Tab show False by (auto simp: switch_tab_def rerender_def)
  qed
  with st r r' Select_Tab show ?thesis by (auto simp: switch_tab_def rerender_def)
qed (use st r r' in \<open>auto simp: rerender_def split: option.splits if_splits prod.splits\<close>)

end
