(* ===== verification/Spec2Isabelle.thy ===== *)
theory Spec2Isabelle
  imports Prelude Js_Number App_State Filter_Catalog Ingestion Form_View Submission Renderer Session
begin

text \<open>
  \<^bold>\<open>A verification model of the image-filter client of Error_fixing_DIP.\<close>
  The program (\<open>src/DIP/src\<close>) is a React page: the user picks or drops an image,
  clicks one of six filters, the image and the filter name are posted to an
  image-processing server, and the result is shown beside the original or under a
  draggable comparison slider.

  \<^bold>\<open>Parts and how they interact.\<close>
  \<^item> \<open>App\<close> (\<open>App.jsx\<close>) owns the shared result state \<open>filename\<close>, \<open>filter\<close>,
    \<open>isProcessing\<close>, the active tab and a decorative cursor position. It renders
    \<open>UploadForm\<close> and \<open>ProcessedImage\<close> only while the upload tab is shown, so
    switching tabs unmounts and remounts both.
  \<^item> \<open>UploadForm\<close> (\<open>components/UploadForm.jsx\<close>) keeps the selected file, the
    drag highlight, the hovered filter, the preview object URL and an error message. It
    writes \<open>App\<close>'s state only through the setter props \<open>setFilename\<close>,
    \<open>setFilter\<close> and \<open>setIsProcessing\<close>. Its \<open>handleUpload\<close> posts to the
    server and continues asynchronously when the reply settles.
  \<^item> \<open>ProcessedImage\<close> (\<open>components/ProcessedImage.jsx\<close>) reads \<open>App\<close>'s state as
    props and keeps its own view mode, slider position and drag flag.
  \<^item> The server is external: only its replies are modelled, as inputs that may arrive in
    any order.

  \<^bold>\<open>Theories.\<close>
  \<^item> \<open>Prelude\<close>: the ECMAScript string built-ins the code calls (\<open>js_split\<close>,
    \<open>js_pop\<close>, \<open>js_to_lower\<close>, \<open>js_replace_first\<close>, \<open>js_join\<close>), truthiness
    (\<open>js_truthy\<close>), \<open>||\<close> (\<open>js_or\<close>) and the printing of \<open>null\<close>/\<open>undefined\<close>. It
    also holds the lemma that the last segment of a split is the text after the last
    separator (\<open>last_js_split_eq\<close>).
  \<^item> \<open>Js_Number\<close>: JS numbers as \<open>jsnum\<close> (reals plus \<open>PosInf\<close>, \<open>NegInf\<close>,
    \<open>NaN\<close>) with \<open>/\<close>, \<open>*\<close>, \<open>Math.min\<close>, \<open>Math.max\<close>.
  \<^item> \<open>App_State\<close>: \<open>app_state\<close> (App's hooks) and \<open>app_init\<close>. The setter interface is
    the datatype \<open>app_cmd\<close> with \<open>apply_cmd\<close>/\<open>apply_cmds\<close>; the child
    components return commands and \<open>App\<close> applies them. It also holds
    \<open>handle_mouse_move\<close> and \<open>set_active_tab\<close>.
  \<^item> \<open>Filter_Catalog\<close>: \<open>filterInfo\<close> in \<open>Object.entries\<close> order, button captions,
    tooltips.
  \<^item> \<open>Ingestion\<close>: \<open>js_file\<close>, the form state \<open>upload_form\<close>, the handlers
    \<open>handleFileChange\<close>, \<open>handleDrag\<close>, \<open>handleDrop\<close>, \<open>allowed_file\<close> and the hover
    handlers. The preview effect works over a browser \<open>blob_store\<close>: \<open>preview_effect\<close>,
    \<open>run_cleanup\<close>, and \<open>commit_form\<close>, which is React's rerun of an effect whose
    dependency changed, cleanup first. \<open>mount_form\<close>/\<open>unmount_form\<close> model mounting.
    The theory also states the specification's validator \<open>validate\<close>. Its lemmas give
    each handler's result on every branch. The invariant \<open>preview_inv\<close> holds at
    every commit (\<open>form_step_preview_inv\<close>). Claims C1--C7.
  \<^item> \<open>Form_View\<close>: what \<open>UploadForm\<close> renders (\<open>render_form\<close>): the drop area,
    the preview, the error banner and the filter buttons with their \<open>disabled\<close> flags
    and tooltips. The page delivers a filter click only to an enabled button
    (\<open>button_enabled\<close>). Claim C27.
  \<^item> \<open>Submission\<close>: \<open>handleUpload\<close> split at its \<open>await\<close>.
    \<open>handleUpload_start\<close> is the guard, the form data and the in-flight flag.
    \<open>handleUpload_finish\<close> is the \<open>try\<close>/\<open>catch\<close>/\<open>finally\<close> continuation for
    a 2xx reply, a non-2xx reply and no reply. The specification's lifecycle is
    \<open>processing_state\<close>, \<open>spec_classify\<close> and \<open>spec_view\<close>; the page is read as that
    state by the abstraction \<open>proc_abs\<close>. Claims C8--C12 and C30 (a filter is published only by a
    successful reply, and it is the request's).
  \<^item> \<open>Renderer\<close>: \<open>renderer\<close> state and its handlers, the slider arithmetic
    \<open>compare_percent\<close>, the reset effect \<open>filter_effect\<close>, and \<open>render\<close>. \<open>render\<close>
    returns the rendered \<open>screen\<close> with the URLs, captions and download name the code
    builds. The slider claim C13 assumes a container of positive width: the slider's
    container has a border, so its bounding width is never 0. Claims C13--C16.
  \<^item> \<open>Session\<close>: the page as a state machine. The state \<open>session\<close> holds App's state, the
    mounted form and view, the blob store, and the requests in flight, each with the
    form instance whose \<open>setError\<close> it will call. The auxiliary field \<open>sent\<close>,
    which no code reads, lists every request sent to the server; the properties use it
    to say which images the server can have produced. The events are \<open>event\<close>.
    \<open>session_step\<close> returns None when an event cannot be delivered: its element is not
    rendered, or it is disabled. The theory also defines \<open>run\<close> and the inductive
    \<open>reachable\<close>. The invariant \<open>session_inv\<close> is proved for every reachable state
    (\<open>reachable_session_inv\<close>) by one preservation lemma per kind of event. The
    lemmas \<open>session_drop_accepted\<close>, \<open>session_click_selected\<close>, \<open>session_reply\<close>
    and \<open>session_reply_success\<close> give the effect of one step on the whole page;
    \<open>session_step_view\<close> says how a step can change the result view.
  \<^item> This theory: properties of the whole page, C17--C26, C28 and C29. Each is stated
    over every reachable state (or every state with the stated requests in flight) and
    is applied to a concrete run of the page in its witness. C17--C19 are invariants,
    C20 is the upload round trip, C25 the settling of all requests, C28 the delivery of
    a click; C21--C24, C26 and C29 are the page's behaviours that the specification
    does not intend (early end of the loading state, last reply wins, results and
    originals shown that the server never produced, a drag that outlives the slider, a
    stale reply overriding a new selection).

  \<^bold>\<open>Modelling decisions.\<close>
  Strings are \<open>char list\<close>s, and case mapping covers ASCII letters. This is exact for
  the decisions the code takes: no non-ASCII character lower-cases to a letter of
  png/jpg/jpeg/bmp, and the filter names are ASCII. JS numbers are idealised reals
  without rounding or signed zero; the non-finite values are kept explicit because
  the slider's division is written over all JS numbers (on the page the divisor, the
  bordered container's width, is always positive). A \<open>File\<close>'s object identity, which React's
  dependency check compares, is \<open>file_id\<close>. React semantics modelled:
  \<^item> a handler's state updates are applied in call order;
  \<^item> an effect reruns after a commit only if its dependency changed, and the previous
    cleanup runs first;
  \<^item> unmounting runs the last cleanup;
  \<^item> a state update of an unmounted instance is dropped;
  \<^item> only rendered, enabled elements receive events. The one over-approximation is
    \<open>Select_Tab\<close>, deliverable at every viewport width although the navbar's tab
    buttons are hidden below the \<open>md\<close> breakpoint (the About tab's "Try It Now"
    button still returns to the upload tab).
  The network is an event \<open>Reply i r\<close> for any pending request \<open>i\<close>, so every
  interleaving and every order of replies is included. A reply is one of axios'
  three outcomes: a 2xx answer with its JSON fields, a non-2xx answer with its error
  field, or no answer. The code has no loops. Every definition is structural and
  executable, so no fuel or partial function is needed. Concrete runs evaluate by
  \<open>simp\<close> with the bundle \<open>session_eval\<close>.

  \<^bold>\<open>Not modelled.\<close> \<open>Spinner.jsx\<close> is stateless markup; its presence is the
  \<open>Pane_Spinner\<close> of \<open>render\<close>. Also left out: styling and animation,
  \<open>console.error\<close>, the About tab's static text, \<open>preventDefault\<close> and
  \<open>stopPropagation\<close>, and the browser's file save on download (its link and file
  name are modelled). The server's image processing is external.

  The fixes the specification proposes in its section 9 are not modelled: the
  development describes the code as it is.
\<close>

subsection \<open>Example inputs\<close>

definition cat_png :: js_file where
  "cat_png = \<lparr>file_id = 1, name = ''cat.png'', size = 204800, file_type = ''image/png''\<rparr>"

definition dog_jpg :: js_file where
  "dog_jpg = \<lparr>file_id = 2, name = ''dog.jpg'', size = 512000, file_type = ''image/jpeg''\<rparr>"

subsection \<open>Properties of the whole page\<close>

text \<open>C17. In every reachable state of the page the only live object URL is the
  mounted form's preview, and none is live while the About tab is shown: at most one
  preview resource exists at any time, across selections, tab switches and uploads.\<close>

theorem reachable_preview_urls:
  assumes "reachable s"
  shows "live_urls (blobs s) = (case form s of Some u \<Rightarrow> set_option (preview u) | None \<Rightarrow> {}) \<and>
         card (live_urls (blobs s)) \<le> 1"
proof -
  from assms have inv: "session_inv s" by (rule reachable_session_inv)
  show ?thesis
  proof (cases "form s")
    case None
    with inv show ?thesis by (simp add: session_inv_def)
  next
    case (Some u)
    with inv have "preview_inv u (blobs s)" by (simp add: session_inv_def)
    with Some show ?thesis by (cases "preview u") (auto simp: preview_inv_def)
  qed
qed

theorem reachable_preview_urls_witness:
  "\<exists>s. run session_init [Form_Event (Drop [cat_png]), Select_Tab About_Tab] = Some s \<and>
       form s = None \<and> live_urls (blobs s) = {} \<and> card (live_urls (blobs s)) \<le> 1"
proof -
  have "\<exists>s. run session_init [Form_Event (Drop [cat_png]), Select_Tab About_Tab] = Some s \<and> form s = None"
    by (simp add: session_eval cat_png_def switch_tab_def unmount_form_def set_active_tab_def)
  then obtain s where r: "run session_init [Form_Event (Drop [cat_png]), Select_Tab About_Tab] = Some s"
    and f: "form s = None" by blast
  have "reachable s" by (rule run_reachable [OF reachable.init r])
  from reachable_preview_urls [OF this] f r show ?thesis by auto
qed

text \<open>C18. The loading state is only shown while a request is in flight: in every
  reachable state, if \<open>isProcessing\<close> is set then some request is pending.\<close>

theorem processing_implies_pending:
  assumes "reachable s" and "is_processing (app s)"
  shows "pending s \<noteq> []"
  using reachable_session_inv [OF assms(1)] assms(2) by (simp add: session_inv_def)

theorem processing_implies_pending_witness:
  "\<exists>s. run session_init [Form_Event (Drop [cat_png]), Click_Filter ''blur''] = Some s \<and>
       is_processing (app s) \<and> pending s \<noteq> []"
proof -
  have "\<exists>s. run session_init [Form_Event (Drop [cat_png]), Click_Filter ''blur''] = Some s \<and>
            is_processing (app s)"
    by (simp add: session_eval cat_png_def)
  then obtain s where r: "run session_init [Form_Event (Drop [cat_png]), Click_Filter ''blur''] = Some s"
    and p: "is_processing (app s)" by blast
  have "reachable s" by (rule run_reachable [OF reachable.init r])
  from processing_implies_pending [OF this p] r p show ?thesis by blast
qed

text \<open>C19. The filter the page publishes (and builds the processed image's URL and
  download name from) is always one of the catalog's identifiers.\<close>

theorem published_filter_in_catalog:
  assumes "reachable s" and "cur_filter (app s) = Some k"
  shows "k \<in> set filter_keys"
  using reachable_session_inv [OF assms(1)] assms(2) by (simp add: session_inv_def)

theorem published_filter_in_catalog_witness:
  "\<exists>s. run session_init [Form_Event (Drop [cat_png]), Click_Filter ''edge_x'', Reply 0 (Http_Ok True None)] = Some s \<and>
       cur_filter (app s) = Some ''edge_x'' \<and> ''edge_x'' \<in> set filter_keys"
proof -
  have "\<exists>s. run session_init [Form_Event (Drop [cat_png]), Click_Filter ''edge_x'', Reply 0 (Http_Ok True None)] = Some s \<and>
            cur_filter (app s) = Some ''edge_x''"
    by (simp add: session_eval cat_png_def)
  then obtain s where r: "run session_init [Form_Event (Drop [cat_png]), Click_Filter ''edge_x'', Reply 0 (Http_Ok True None)] = Some s"
    and f: "cur_filter (app s) = Some ''edge_x''" by blast
  have "reachable s" by (rule run_reachable [OF reachable.init r])
  from published_filter_in_catalog [OF this f] r f show ?thesis by blast
qed

text \<open>C20. The upload round trip of the specification, from any reachable state on the
  upload tab: dropping an accepted file, clicking a catalog filter and receiving
  \<open>{success: true}\<close> for that request shows the toggle and the processed image
  \<open>/processed/<filter>_<name>\<close> (beside the original or as the slider's top layer)
  and offers it for download as \<open><filter>_processed_<name>\<close>. Other requests in
  flight stay pending, and the request sent is the dropped file with the filter.\<close>

theorem drop_click_reply_shows_result:
  assumes "reachable s" "active_tab (app s) = Upload_Tab" "size f \<le> max_file_size"
    "allowed_file (name f)" "k \<in> set filter_keys"
  shows "\<exists>s' r v. run s [Form_Event (Drop [f]), Click_Filter k, Reply (length (pending s)) (Http_Ok True e)] = Some s' \<and>
     view s' = Some r \<and> render (app s') r = Result v \<and> show_toggle v \<and> body_shows_processed (body v) \<and>
     download_link v = Some (processed_image (Some k) (name f), download_name (Some k) (name f)) \<and>
     pending s' = pending s \<and> sent s' = sent s @ [\<lparr>req_file = f, req_filter = k\<rparr>]"
proof -
  obtain u r0 where u: "form s = Some u" and r0: "view s = Some r0"
    using reachable_mounted [OF assms(1,2)] .
  from session_drop_accepted [OF u assms(3,4), of "[]"] obtain s1 u1 where
    st1: "session_step s (Form_Event (Drop [f])) = Some s1" and a1: "app s1 = (app s)\<lparr>filename := Some (name f)\<rparr>"
    and f1: "form s1 = Some u1" "selected_file u1 = Some f" and p1: "pending s1 = pending s" "sent s1 = sent s"
    and v1: "view s1 = map_option (filter_effect (cur_filter (app s))) (view s)" by blast
  from session_click_selected [OF f1 assms(5)] obtain s2 where
    st2: "session_step s1 (Click_Filter k) = Some s2" and a2: "app s2 = (app s1)\<lparr>is_processing := True\<rparr>"
    and p2: "pending s2 = pending s1 @ [(form_instance s1, \<lparr>req_file = f, req_filter = k\<rparr>)]"
    and se2: "sent s2 = sent s1 @ [\<lparr>req_file = f, req_filter = k\<rparr>]"
    and v2: "view s2 = map_option (filter_effect (cur_filter (app s1))) (view s1)" by blast
  from p1 p2 have i: "length (pending s) < length (pending s2)"
    and at: "pending s2 ! length (pending s) = (form_instance s1, \<lparr>req_file = f, req_filter = k\<rparr>)" by simp_all
  from session_reply_success [OF i at, of e] obtain s3 where
    st3: "session_step s2 (Reply (length (pending s)) (Http_Ok True e)) = Some s3"
    and a3: "app s3 = (app s2)\<lparr>cur_filter := Some k, filename := Some (name f), is_processing := False\<rparr>"
    and p3: "pending s3 = take (length (pending s)) (pending s2) @ drop (Suc (length (pending s))) (pending s2)"
    and se3: "sent s3 = sent s2"
    and v3: "view s3 = map_option (filter_effect (Some k)) (view s2)" by auto
  from r0 v1 v2 v3 obtain r where r: "view s3 = Some r" by auto
  from render_ready [of "app s3" "name f" k r] a3 allowed_file_nonempty [OF assms(4)] filter_keys_nonempty [OF assms(5)]
  obtain v where "render (app s3) r = Result v" "show_toggle v" "body_shows_processed (body v)"
    "download_link v = Some (processed_image (Some k) (name f), download_name (Some k) (name f))" by auto
  with st1 st2 st3 r p1 p2 p3 se2 se3 p1 show ?thesis by auto
qed

theorem drop_click_reply_shows_result_witness:
  "\<exists>s' r v. run session_init [Form_Event (Drop [cat_png]), Click_Filter ''blur'', Reply 0 (Http_Ok True None)] = Some s' \<and>
     view s' = Some r \<and> render (app s') r = Result v \<and>
     download_link v = Some (''http://127.0.0.1:5000/processed/blur_cat.png'', ''blur_processed_cat.png'')"
proof -
  have h: "active_tab (app session_init) = Upload_Tab" "size cat_png \<le> max_file_size"
    "allowed_file (name cat_png)" "''blur'' \<in> set filter_keys" "pending session_init = []"
    by (simp_all add: session_eval cat_png_def)
  from drop_click_reply_shows_result [OF reachable.init h(1-4), of None] h(5)
  obtain s' r v where "run session_init [Form_Event (Drop [cat_png]), Click_Filter ''blur'', Reply 0 (Http_Ok True None)] = Some s'"
    "view s' = Some r" "render (app s') r = Result v"
    "download_link v = Some (processed_image (Some ''blur'') (name cat_png), download_name (Some ''blur'') (name cat_png))"
    by auto
  then show ?thesis by (auto simp: processed_image_def download_name_def server_base_def cat_png_def)
qed

text \<open>C21. Submissions are not serialised: whenever two or more requests are in flight,
  the reply to any one of them (of any kind) clears \<open>isProcessing\<close> although the
  others are still pending, so the page drops its loading state early.\<close>

theorem overlapping_uploads_clear_processing_early:
  assumes "2 \<le> length (pending s)" "i < length (pending s)"
  shows "\<exists>s'. session_step s (Reply i r) = Some s' \<and> \<not> is_processing (app s') \<and>
              pending s' \<noteq> [] \<and> length (pending s') = length (pending s) - 1"
proof -
  obtain inst q where "pending s ! i = (inst, q)" by (metis prod.exhaust)
  from session_reply [OF assms(2) this, of r] assms show ?thesis
    by (auto simp: min_def)
qed

theorem overlapping_uploads_clear_processing_early_witness:
  "\<exists>s s'. run session_init [Form_Event (Drop [cat_png]), Click_Filter ''blur'', Click_Filter ''emboss''] = Some s \<and>
     session_step s (Reply 0 No_Response) = Some s' \<and> \<not> is_processing (app s') \<and> pending s' \<noteq> []"
proof -
  have "\<exists>s. run session_init [Form_Event (Drop [cat_png]), Click_Filter ''blur'', Click_Filter ''emboss''] = Some s \<and>
            length (pending s) = 2"
    by (simp add: session_eval cat_png_def)
  then obtain s where r: "run session_init [Form_Event (Drop [cat_png]), Click_Filter ''blur'', Click_Filter ''emboss''] = Some s"
    and l: "length (pending s) = 2" by blast
  from overlapping_uploads_clear_processing_early [of s 0 No_Response] l r show ?thesis by auto
qed

text \<open>C22. The result shown is decided by the order in which replies arrive, not by the
  order of the clicks: for any two requests in flight, the one at position \<open>i\<close> sent
  before the one at \<open>j\<close>, if the later request succeeds first and the earlier one
  second, the page ends up publishing the earlier request's filter and file.\<close>

theorem last_reply_wins:
  assumes "i < j" "j < length (pending s)"
  shows "\<exists>s'. run s [Reply j (Http_Ok True e1), Reply i (Http_Ok True e2)] = Some s' \<and>
     cur_filter (app s') = Some (req_filter (snd (pending s ! i))) \<and>
     filename (app s') = Some (name (req_file (snd (pending s ! i)))) \<and>
     \<not> is_processing (app s') \<and> length (pending s') = length (pending s) - 2"
proof -
  obtain inst2 q2 where pj: "pending s ! j = (inst2, q2)" by (metis prod.exhaust)
  obtain inst1 q1 where pi: "pending s ! i = (inst1, q1)" by (metis prod.exhaust)
  from session_reply_success [OF assms(2) pj, of e1] obtain s1 where
    st1: "session_step s (Reply j (Http_Ok True e1)) = Some s1"
    and p1: "pending s1 = take j (pending s) @ drop (Suc j) (pending s)" by blast
  from assms p1 have i1: "i < length (pending s1)" and at1: "pending s1 ! i = (inst1, q1)"
    using pi by (simp_all add: nth_append min_def)
  from session_reply_success [OF i1 at1, of e2] obtain s2 where
    st2: "session_step s1 (Reply i (Http_Ok True e2)) = Some s2"
    and a2: "app s2 = (app s1)\<lparr>cur_filter := Some (req_filter q1), filename := Some (name (req_file q1)),
                     is_processing := False\<rparr>"
    and p2: "pending s2 = take i (pending s1) @ drop (Suc i) (pending s1)" by blast
  from assms p1 p2 have "length (pending s2) = length (pending s) - 2" by (simp add: min_def)
  with st1 st2 a2 pi show ?thesis by simp
qed

theorem last_reply_wins_witness:
  "\<exists>s s'. run session_init [Form_Event (Drop [cat_png]), Click_Filter ''blur'', Click_Filter ''emboss''] = Some s \<and>
     run s [Reply 1 (Http_Ok True None), Reply 0 (Http_Ok True None)] = Some s' \<and>
     cur_filter (app s') = Some ''blur''"
proof -
  have "\<exists>s. run session_init [Form_Event (Drop [cat_png]), Click_Filter ''blur'', Click_Filter ''emboss''] = Some s \<and>
            length (pending s) = 2 \<and> req_filter (snd (pending s ! 0)) = ''blur''"
    by (simp add: session_eval cat_png_def)
  then obtain s where r: "run session_init [Form_Event (Drop [cat_png]), Click_Filter ''blur'', Click_Filter ''emboss''] = Some s"
    and l: "length (pending s) = 2" and k: "req_filter (snd (pending s ! 0)) = ''blur''" by blast
  from last_reply_wins [of 0 1 s None None] l k r show ?thesis by auto
qed

text \<open>C23. A new selection after a result keeps the published filter and replaces the
  file name. From any reachable state that shows a result for filter \<open>k\<close>, dropping
  an accepted file \<open>g\<close> for which no request with filter \<open>k\<close> was ever sent makes the
  page show and offer for download \<open>/processed/k_<name g>\<close>, an image no request
  produced.\<close>

theorem new_selection_shows_unproduced_result:
  assumes "reachable s" "active_tab (app s) = Upload_Tab" "cur_filter (app s) = Some k"
    "\<not> is_processing (app s)" "size g \<le> max_file_size" "allowed_file (name g)"
    "\<forall>q \<in> set (sent s). \<not> (req_filter q = k \<and> name (req_file q) = name g)"
  shows "\<exists>s' r v. session_step s (Form_Event (Drop [g])) = Some s' \<and> view s' = Some r \<and>
     render (app s') r = Result v \<and> body_shows_processed (body v) \<and>
     download_link v = Some (processed_image (Some k) (name g), download_name (Some k) (name g)) \<and>
     (\<forall>q \<in> set (sent s'). \<not> (req_filter q = k \<and> name (req_file q) = name g))"
proof -
  obtain u r0 where u: "form s = Some u" and r0: "view s = Some r0"
    using reachable_mounted [OF assms(1,2)] .
  from session_drop_accepted [OF u assms(5,6), of "[]"] obtain s1 where
    st1: "session_step s (Form_Event (Drop [g])) = Some s1" and a1: "app s1 = (app s)\<lparr>filename := Some (name g)\<rparr>"
    and se1: "sent s1 = sent s" and v1: "view s1 = map_option (filter_effect (cur_filter (app s))) (view s)" by blast
  from r0 v1 obtain r where r: "view s1 = Some r" by auto
  from render_ready [of "app s1" "name g" k r] a1 assms(3,4) allowed_file_nonempty [OF assms(6)]
    reachable_filters(1) [OF assms(1,3)]
  obtain v where "render (app s1) r = Result v" "body_shows_processed (body v)"
    "download_link v = Some (processed_image (Some k) (name g), download_name (Some k) (name g))" by auto
  with st1 r se1 assms(7) show ?thesis by auto
qed

theorem new_selection_shows_unproduced_result_witness:
  "\<exists>s s' r v. run session_init [Form_Event (Drop [cat_png]), Click_Filter ''blur'', Reply 0 (Http_Ok True None)] = Some s \<and>
     session_step s (Form_Event (Drop [dog_jpg])) = Some s' \<and> view s' = Some r \<and> render (app s') r = Result v \<and>
     download_link v = Some (''http://127.0.0.1:5000/processed/blur_dog.jpg'', ''blur_processed_dog.jpg'')"
proof -
  have "\<exists>s. run session_init [Form_Event (Drop [cat_png]), Click_Filter ''blur'', Reply 0 (Http_Ok True None)] = Some s \<and>
            active_tab (app s) = Upload_Tab \<and> cur_filter (app s) = Some ''blur'' \<and> \<not> is_processing (app s) \<and>
            (\<forall>q \<in> set (sent s). \<not> (req_filter q = ''blur'' \<and> name (req_file q) = name dog_jpg))"
    by (simp add: session_eval cat_png_def dog_jpg_def)
  then obtain s where r: "run session_init [Form_Event (Drop [cat_png]), Click_Filter ''blur'', Reply 0 (Http_Ok True None)] = Some s"
    and h: "active_tab (app s) = Upload_Tab" "cur_filter (app s) = Some ''blur''" "\<not> is_processing (app s)"
      "\<forall>q \<in> set (sent s). \<not> (req_filter q = ''blur'' \<and> name (req_file q) = name dog_jpg)" by blast
  have d: "size dog_jpg \<le> max_file_size" "allowed_file (name dog_jpg)"
    by (simp_all add: session_eval dog_jpg_def)
  from new_selection_shows_unproduced_result [OF run_reachable [OF reachable.init r] h(1-3) d h(4)] r
  show ?thesis by (auto simp: processed_image_def download_name_def server_base_def dog_jpg_def)
qed

text \<open>C24. A file that was only selected is already shown from the server's upload
  folder: from any reachable state on the upload tab, dropping an accepted file whose
  name no request ever carried makes the side-by-side view load
  \<open>/uploads/<name>\<close> from the server, where that file was never uploaded.\<close>

theorem selection_shows_server_original:
  assumes "reachable s" "active_tab (app s) = Upload_Tab" "size g \<le> max_file_size"
    "allowed_file (name g)" "\<forall>q \<in> set (sent s). name (req_file q) \<noteq> name g"
  shows "\<exists>s' r. session_step s (Form_Event (Drop [g])) = Some s' \<and> view s' = Some r \<and>
     (\<forall>q \<in> set (sent s'). name (req_file q) \<noteq> name g) \<and>
     (view_mode r = Side_By_Side \<longrightarrow>
        shown_original (render (app s') r) = Some (server_base @ ''/uploads/'' @ name g))"
proof -
  obtain u r0 where u: "form s = Some u" and r0: "view s = Some r0"
    using reachable_mounted [OF assms(1,2)] .
  from session_drop_accepted [OF u assms(3,4), of "[]"] obtain s1 where
    st1: "session_step s (Form_Event (Drop [g])) = Some s1" and a1: "app s1 = (app s)\<lparr>filename := Some (name g)\<rparr>"
    and se1: "sent s1 = sent s" and v1: "view s1 = map_option (filter_effect (cur_filter (app s))) (view s)" by blast
  from r0 v1 obtain r where r: "view s1 = Some r" by auto
  have "view_mode r = Side_By_Side \<longrightarrow>
        shown_original (render (app s1) r) = Some (server_base @ ''/uploads/'' @ name g)"
    using a1 allowed_file_nonempty [OF assms(4)] by (simp add: render_simps original_image_def)
  with st1 r se1 assms(5) show ?thesis by auto
qed

theorem selection_shows_server_original_witness:
  "\<exists>s' r. session_step session_init (Form_Event (Drop [cat_png])) = Some s' \<and> view s' = Some r \<and>
     shown_original (render (app s') r) = Some ''http://127.0.0.1:5000/uploads/cat.png''"
proof -
  have h: "active_tab (app session_init) = Upload_Tab" "size cat_png \<le> max_file_size"
    "allowed_file (name cat_png)" "\<forall>q \<in> set (sent session_init). name (req_file q) \<noteq> name cat_png"
    by (simp_all add: session_eval cat_png_def)
  from selection_shows_server_original [OF reachable.init h] obtain s' r where
    st: "session_step session_init (Form_Event (Drop [cat_png])) = Some s'" and v: "view s' = Some r"
    and o: "view_mode r = Side_By_Side \<longrightarrow> shown_original (render (app s') r) = Some (server_base @ ''/uploads/'' @ name cat_png)"
    by blast
  from st v have "view_mode r = Side_By_Side" by (auto simp: session_eval cat_png_def)
  with st v o show ?thesis by (auto simp: server_base_def cat_png_def)
qed

text \<open>C25. Every request in flight settles to a terminal state: from any reachable
  state, delivering a reply for each pending request empties the queue and leaves
  \<open>isProcessing\<close> off; nothing is retried or left in flight.\<close>

theorem pending_requests_settle:
  assumes "reachable s"
  shows "\<exists>s'. run s (replicate (length (pending s)) (Reply 0 No_Response)) = Some s' \<and>
              pending s' = [] \<and> \<not> is_processing (app s')"
  using assms
proof (induction "length (pending s)" arbitrary: s)
  case 0
  then have "pending s = []" by simp
  with reachable_session_inv [OF "0.prems"] show ?case by (simp add: session_inv_def)
next
  case (Suc n)
  then have i: "0 < length (pending s)" by auto
  obtain inst q where p0: "pending s ! 0 = (inst, q)" by (metis prod.exhaust)
  from session_reply [OF i p0, of No_Response] obtain s1 where
    st: "session_step s (Reply 0 No_Response) = Some s1"
    and p1: "pending s1 = take 0 (pending s) @ drop (Suc 0) (pending s)" by blast
  have r1: "reachable s1" using Suc.prems st by (rule reachable.step)
  from p1 Suc.hyps(2) have n: "n = length (pending s1)" by simp
  from Suc.hyps(1) [OF n r1] obtain s' where
    "run s1 (replicate (length (pending s1)) (Reply 0 No_Response)) = Some s'"
    "pending s' = []" "\<not> is_processing (app s')" by blast
  with st n Suc.hyps(2) show ?case by (auto simp flip: Suc.hyps(2))
qed

theorem pending_requests_settle_witness:
  "\<exists>s s'. run session_init [Form_Event (Drop [cat_png]), Click_Filter ''blur'', Click_Filter ''sharpen''] = Some s \<and>
      run s (replicate (length (pending s)) (Reply 0 No_Response)) = Some s' \<and>
      pending s' = [] \<and> \<not> is_processing (app s')"
proof -
  have "\<exists>s. run session_init [Form_Event (Drop [cat_png]), Click_Filter ''blur'', Click_Filter ''sharpen''] = Some s"
    by (simp add: session_eval cat_png_def)
  then obtain s where r: "run session_init [Form_Event (Drop [cat_png]), Click_Filter ''blur'', Click_Filter ''sharpen''] = Some s"
    by blast
  have "reachable s" by (rule run_reachable [OF reachable.init r])
  from pending_requests_settle [OF this] r show ?thesis by blast
qed

text \<open>C26. A drag in progress survives the slider's removal: in any reachable state
  where a drag is being tracked and the slider is not on the page (a click hid it
  while processing, or the view is side by side), no event can end the drag or move
  the divider, so when the slider returns a plain mouse move over it, with no button
  pressed, drags the divider.\<close>

theorem drag_survives_slider_removal:
  assumes "reachable s" "view s = Some r" "is_comparing r" "\<not> slider_on_page (render (app s) r)"
    "session_step s e = Some s'" "view s' = Some r'"
  shows "is_comparing r' \<and> compare_position r' = compare_position r \<and>
         renderer_handler (Mouse_Move x l w) r' = r'\<lparr>compare_position := compare_percent x l w\<rparr>"
proof -
  from session_step_view [OF reachable_session_inv [OF assms(1)] assms(5,2,6)]
  consider (same) "r' = r" | (effect) f where "r' = filter_effect f r"
    | (event) e' where "view_accepts (render (app s) r) e'" "r' = renderer_handler e' r"
    by blast
  then have "is_comparing r' \<and> compare_position r' = compare_position r"
  proof cases
    case same
    with assms(3) show ?thesis by simp
  next
    case effect
    with assms(3) show ?thesis by simp
  next
    case event
    from event(1) assms(4) have "e' = Original_Load \<or> (\<exists>m. e' = Toggle m)"
      by (cases e') (auto simp: view_accepts_def)
    with event(2) assms(3) show ?thesis by (auto simp: original_loaded_def setViewMode_def)
  qed
  then show ?thesis by (simp add: handleCompareMove_def)
qed

theorem drag_survives_slider_removal_witness:
  "\<exists>s s' r'. run session_init [Form_Event (Drop [cat_png]), Click_Filter ''blur'', Reply 0 (Http_Ok True None),
                           View_Event (Toggle Comparison), View_Event Touch_Start, Click_Filter ''emboss''] = Some s \<and>
     session_step s (Reply 0 (Http_Ok True None)) = Some s' \<and> view s' = Some r' \<and> is_comparing r' \<and>
     renderer_handler (Mouse_Move 30 0 100) r' = r'\<lparr>compare_position := Num 30\<rparr>"
proof -
  have "\<exists>s r s' r'. run session_init [Form_Event (Drop [cat_png]), Click_Filter ''blur'', Reply 0 (Http_Ok True None),
                           View_Event (Toggle Comparison), View_Event Touch_Start, Click_Filter ''emboss''] = Some s \<and>
     view s = Some r \<and> is_comparing r \<and> \<not> slider_on_page (render (app s) r) \<and>
     session_step s (Reply 0 (Http_Ok True None)) = Some s' \<and> view s' = Some r'"
    by (simp add: session_eval cat_png_def)
  then obtain s r s' r' where r: "run session_init [Form_Event (Drop [cat_png]), Click_Filter ''blur'', Reply 0 (Http_Ok True None),
                           View_Event (Toggle Comparison), View_Event Touch_Start, Click_Filter ''emboss''] = Some s"
    and h: "view s = Some r" "is_comparing r" "\<not> slider_on_page (render (app s) r)"
      "session_step s (Reply 0 (Http_Ok True None)) = Some s'" "view s' = Some r'" by blast
  from drag_survives_slider_removal [OF run_reachable [OF reachable.init r] h, of 30 0 100] r h
  show ?thesis by (auto simp: compare_percent_def)
qed

text \<open>C28. A filter click reaches the page only through an enabled button, so it always
  finds a selected file and issues exactly one request: the no-file branch of
  \<open>handleUpload\<close> (C8) cannot be reached from the page.\<close>

theorem delivered_click_issues_request:
  assumes "session_step s (Click_Filter k) = Some s'"
  shows "\<exists>u f. form s = Some u \<and> selected_file u = Some f \<and> k \<in> set filter_keys \<and>
           pending s' = pending s @ [(form_instance s, \<lparr>req_file = f, req_filter = k\<rparr>)] \<and>
           is_processing (app s')"
proof -
  from assms obtain u where u: "form s = Some u" and en: "button_enabled (render_form u) k"
    by (cases "form s") (auto split: if_splits)
  from en obtain f where f: "selected_file u = Some f" and k: "k \<in> set filter_keys"
    by (auto simp: button_enabled_iff)
  from assms u en f show ?thesis
    by (auto simp: k handleUpload_start_def rerender_def)
qed

theorem delivered_click_issues_request_witness:
  "\<exists>s s'. run session_init [Form_Event (Drop [cat_png])] = Some s \<and>
     session_step s (Click_Filter ''outline'') = Some s' \<and>
     pending s' = [(0, \<lparr>req_file = cat_png, req_filter = ''outline''\<rparr>)]"
proof -
  have "\<exists>s s'. run session_init [Form_Event (Drop [cat_png])] = Some s \<and>
      session_step s (Click_Filter ''outline'') = Some s' \<and> pending s = [] \<and> form_instance s = 0 \<and>
      form s = Some (the (form s)) \<and> selected_file (the (form s)) = Some cat_png"
    by (simp add: session_eval cat_png_def)
  then obtain s s' where r: "run session_init [Form_Event (Drop [cat_png])] = Some s"
    and st: "session_step s (Click_Filter ''outline'') = Some s'"
    and p: "pending s = []" "form_instance s = 0"
    and sel: "form s = Some (the (form s))" "selected_file (the (form s)) = Some cat_png" by blast
  from delivered_click_issues_request [OF st] p sel r st show ?thesis by auto
qed

text \<open>C29. A reply for an earlier selection overrides a newer one: in any reachable
  state where the form has selected a file other than a pending request's, that
  request's success publishes its own file name, so the result view shows and offers
  the old file processed while the form shows the new selection the next click will
  upload.\<close>

theorem stale_reply_overrides_new_selection:
  assumes "reachable s" "i < length (pending s)" "pending s ! i = (inst, q)"
    "form s = Some u" "selected_file u = Some g" "name (req_file q) \<noteq> name g" "name (req_file q) \<noteq> []"
  shows "\<exists>s' r v. session_step s (Reply i (Http_Ok True e)) = Some s' \<and> form s' = Some u \<and>
     filename (app s') = Some (name (req_file q)) \<and> view s' = Some r \<and> render (app s') r = Result v \<and>
     download_link v = Some (processed_image (Some (req_filter q)) (name (req_file q)),
                             download_name (Some (req_filter q)) (name (req_file q)))"
proof -
  from reachable_session_inv [OF assms(1)] assms(4) obtain r0 where r0: "view s = Some r0"
    by (cases "view s") (auto simp: session_inv_def)
  from session_reply_success [OF assms(2,3), of e] obtain s1 where
    st1: "session_step s (Reply i (Http_Ok True e)) = Some s1"
    and a1: "app s1 = (app s)\<lparr>cur_filter := Some (req_filter q), filename := Some (name (req_file q)),
                     is_processing := False\<rparr>"
    and f1: "form s1 = form s" and v1: "view s1 = map_option (filter_effect (Some (req_filter q))) (view s)"
    by blast
  from r0 v1 obtain r where r: "view s1 = Some r" by auto
  from assms(2,3) have "(inst, q) \<in> set (pending s)" by (metis nth_mem)
  from reachable_filters(2) [OF assms(1) this] have k: "req_filter q \<noteq> []" by simp
  from render_ready [of "app s1" "name (req_file q)" "req_filter q" r] a1 k assms(7)
  obtain v where "render (app s1) r = Result v"
    "download_link v = Some (processed_image (Some (req_filter q)) (name (req_file q)),
                             download_name (Some (req_filter q)) (name (req_file q)))" by auto
  with st1 f1 assms(4) a1 r show ?thesis by auto
qed

theorem stale_reply_overrides_new_selection_witness:
  "\<exists>s s' r v. run session_init [Form_Event (Drop [cat_png]), Click_Filter ''blur'', Form_Event (Drop [dog_jpg])] = Some s \<and>
     session_step s (Reply 0 (Http_Ok True None)) = Some s' \<and> form s' = form s \<and>
     filename (app s') = Some ''cat.png'' \<and> view s' = Some r \<and> render (app s') r = Result v \<and>
     download_link v = Some (''http://127.0.0.1:5000/processed/blur_cat.png'', ''blur_processed_cat.png'')"
proof -
  have "\<exists>s u. run session_init [Form_Event (Drop [cat_png]), Click_Filter ''blur'', Form_Event (Drop [dog_jpg])] = Some s \<and>
            length (pending s) = 1 \<and> pending s ! 0 = (0, \<lparr>req_file = cat_png, req_filter = ''blur''\<rparr>) \<and>
            form s = Some u \<and> selected_file u = Some dog_jpg"
    by (simp add: session_eval cat_png_def dog_jpg_def)
  then obtain s u where r: "run session_init [Form_Event (Drop [cat_png]), Click_Filter ''blur'', Form_Event (Drop [dog_jpg])] = Some s"
    and l: "length (pending s) = 1" and h: "pending s ! 0 = (0, \<lparr>req_file = cat_png, req_filter = ''blur''\<rparr>)"
      "form s = Some u" "selected_file u = Some dog_jpg" by blast
  from l have i: "0 < length (pending s)" by simp
  have n: "name (req_file \<lparr>req_file = cat_png, req_filter = ''blur''\<rparr>) \<noteq> name dog_jpg"
    "name (req_file \<lparr>req_file = cat_png, req_filter = ''blur''\<rparr>) \<noteq> []"
    by (simp_all add: cat_png_def dog_jpg_def)
  from stale_reply_overrides_new_selection [OF run_reachable [OF reachable.init r] i h n, of None] r h
  show ?thesis by (auto simp: processed_image_def download_name_def server_base_def cat_png_def)
qed

end
